(* ===== verification/Prelude.thy ===== *)
theory Prelude
  imports Complex_Main
begin

text \<open>
  Shared vocabulary of the development: the collections of rewrite rules that the
  component theories extend, and generic lemmas on index loops and finite sums.
  A JavaScript \<open>for (var k = 0; k < n; ++k)\<close> loop is modelled throughout as a
  \<open>foldl\<close> of the loop body over \<open>[0..<n]\<close>; the lemmas here let proofs about
  such loops proceed by induction on \<open>n\<close>.
\<close>

named_theorems js_num_simps
  "evaluation rules of the JavaScript number operations on finite operands"

named_theorems loop_simps
  "unfolding rules of index loops written as folds over upt"

lemma foldl_upt_Suc [loop_simps]:
  "foldl f a [0..<Suc n] = f (foldl f a [0..<n]) n"
  by simp

lemma foldl_upt_0 [loop_simps]:
  "foldl f a [0..<0] = a"
  by simp

text \<open>Finite sums over an index range, peeled at the top as the loop is.\<close>

lemma sum_lessThan_Suc_top [loop_simps]:
  "(\<Sum>k<Suc n. g k) = (\<Sum>k<n. g k) + (g n :: 'a :: comm_monoid_add)"
  by simp

lemma card_lessThan_filter_Suc [loop_simps]:
  "card {k. k < Suc n \<and> P k} = card {k. k < n \<and> P k} + (if P n then 1 else 0)"
proof -
  have eq: "{k. k < Suc n \<and> P k} = {k. k < n \<and> P k} \<union> (if P n then {n} else {})"
    by (auto simp: less_Suc_eq)
  show ?thesis
    by (simp add: eq)
qed

text \<open>A predicate that holds for every index below a bound, peeled at the top.\<close>

lemma all_less_Suc_iff [loop_simps]:
  "(\<forall>k<Suc n. P k) \<longleftrightarrow> (\<forall>k<n. P k) \<and> P n"
  by (auto simp: less_Suc_eq)

end
