(* ===== verification/JsNum.thy ===== *)
theory JsNum
  imports Prelude
begin

text \<open>
  JavaScript numbers as the comparison code uses them.  A value is a finite number
  (kept as an exact real), \<open>NaN\<close>, or one of the two infinities.  The operations
  follow ECMAScript's Number semantics case by case (the same case rules as IEEE 754:
  \<open>NaN\<close> absorbs, \<open>\<infinity> - \<infinity>\<close> and \<open>0 * \<infinity>\<close> and \<open>0 / 0\<close> are \<open>NaN\<close>, a
  non-zero number divided by zero is an infinity of its sign, every relational
  comparison with \<open>NaN\<close> is false).  Rounding to the nearest double and overflow of
  a finite result to an infinity are not modelled; neither is the sign of zero (a zero
  divisor counts as \<open>+0\<close>, which is the only zero the comparison loop can produce,
  since its sums start at \<open>+0\<close> and add squares).

  The arithmetic and the ordering are given as instances of HOL's syntactic classes,
  so the model reads like the source: \<open>diff * diff\<close>, \<open>\<bar>diff\<bar>\<close>,
  \<open>maxError < \<bar>diff\<bar>\<close>.  No algebraic class is instantiated: with \<open>NaN\<close> these
  operations satisfy none of the ordered-field laws, so no library lemma about rings or
  orders applies to them by accident.
\<close>

datatype jsnum = Num real | NaN | PosInf | NegInf

instantiation jsnum :: "{zero, uminus, plus, minus, times, inverse, abs, ord}"
begin

definition zero_jsnum :: jsnum where
  "zero_jsnum = Num 0"

fun uminus_jsnum :: "jsnum \<Rightarrow> jsnum" where
  "uminus_jsnum (Num x) = Num (- x)"
| "uminus_jsnum NaN = NaN"
| "uminus_jsnum PosInf = NegInf"
| "uminus_jsnum NegInf = PosInf"

fun plus_jsnum :: "jsnum \<Rightarrow> jsnum \<Rightarrow> jsnum" where
  "plus_jsnum (Num x) (Num y) = Num (x + y)"
| "plus_jsnum NaN _ = NaN"
| "plus_jsnum _ NaN = NaN"
| "plus_jsnum PosInf NegInf = NaN"
| "plus_jsnum NegInf PosInf = NaN"
| "plus_jsnum PosInf _ = PosInf"
| "plus_jsnum NegInf _ = NegInf"
| "plus_jsnum _ PosInf = PosInf"
| "plus_jsnum _ NegInf = NegInf"

definition minus_jsnum :: "jsnum \<Rightarrow> jsnum \<Rightarrow> jsnum" where
  "minus_jsnum x y = x + (- y)"

fun times_jsnum :: "jsnum \<Rightarrow> jsnum \<Rightarrow> jsnum" where
  "times_jsnum (Num x) (Num y) = Num (x * y)"
| "times_jsnum NaN _ = NaN"
| "times_jsnum _ NaN = NaN"
| "times_jsnum (Num x) y = (if x = 0 then NaN else if 0 < x then y else - y)"
| "times_jsnum x (Num y) = (if y = 0 then NaN else if 0 < y then x else - x)"
| "times_jsnum PosInf y = y"
| "times_jsnum NegInf y = - y"

fun divide_jsnum :: "jsnum \<Rightarrow> jsnum \<Rightarrow> jsnum" where
  "divide_jsnum (Num x) (Num y) =
     (if y = 0 then (if x = 0 then NaN else if 0 < x then PosInf else NegInf)
      else Num (x / y))"
| "divide_jsnum NaN _ = NaN"
| "divide_jsnum _ NaN = NaN"
| "divide_jsnum (Num x) _ = Num 0"
| "divide_jsnum x (Num y) = (if 0 \<le> y then x else - x)"
| "divide_jsnum _ _ = NaN"

text \<open>HOL's \<open>/\<close> lives in class \<open>inverse\<close>; JavaScript has no reciprocal operator.\<close>

definition inverse_jsnum :: "jsnum \<Rightarrow> jsnum" where
  "inverse_jsnum x = divide (Num 1) x"

fun abs_jsnum :: "jsnum \<Rightarrow> jsnum" where
  "abs_jsnum (Num x) = Num \<bar>x\<bar>"
| "abs_jsnum NaN = NaN"
| "abs_jsnum PosInf = PosInf"
| "abs_jsnum NegInf = PosInf"

fun less_jsnum :: "jsnum \<Rightarrow> jsnum \<Rightarrow> bool" where
  "less_jsnum (Num x) (Num y) = (x < y)"
| "less_jsnum NaN _ = False"
| "less_jsnum _ NaN = False"
| "less_jsnum NegInf y = (y \<noteq> NegInf)"
| "less_jsnum x PosInf = (x \<noteq> PosInf)"
| "less_jsnum _ _ = False"

definition less_eq_jsnum :: "jsnum \<Rightarrow> jsnum \<Rightarrow> bool" where
  "less_eq_jsnum x y \<longleftrightarrow> x < y \<or> (x = y \<and> x \<noteq> NaN)"

instance ..

end

text \<open>\<open>Math.log10\<close>: the real logarithm on positive numbers, \<open>-\<infinity>\<close> at zero.\<close>

fun js_log10 :: "jsnum \<Rightarrow> jsnum" where
  "js_log10 (Num x) = (if 0 < x then Num (log 10 x) else if x = 0 then NegInf else NaN)"
| "js_log10 NaN = NaN"
| "js_log10 PosInf = PosInf"
| "js_log10 NegInf = NaN"

text \<open>
  Reading \<open>a[k]\<close> from a typed array: the element in range; out of range the read
  gives \<open>undefined\<close>, which every arithmetic operator converts to \<open>NaN\<close>.  Only
  arithmetic uses of such a read occur in the program, so the read is modelled by its
  numeric value.
\<close>

definition js_get :: "jsnum list \<Rightarrow> nat \<Rightarrow> jsnum" where
  "js_get xs k = (if k < length xs then xs ! k else NaN)"

text \<open>A finite number, as a predicate on values and on whole buffers.\<close>

fun is_finite :: "jsnum \<Rightarrow> bool" where
  "is_finite (Num _) = True"
| "is_finite _ = False"

definition all_finite :: "jsnum list \<Rightarrow> bool" where
  "all_finite xs \<longleftrightarrow> list_all is_finite xs"

text \<open>The real value of a finite number (0 elsewhere; only used under \<open>is_finite\<close>).\<close>

fun num_val :: "jsnum \<Rightarrow> real" where
  "num_val (Num x) = x"
| "num_val _ = 0"

subsection \<open>Evaluation rules\<close>

lemma js_zero [js_num_simps]: "(0 :: jsnum) = Num 0"
  by (simp add: zero_jsnum_def)

lemma js_minus_Num [js_num_simps]: "Num x - Num y = Num (x - y)"
  by (simp add: minus_jsnum_def)

lemma js_le_Num [js_num_simps]: "Num x \<le> Num y \<longleftrightarrow> x \<le> y"
  by (auto simp: less_eq_jsnum_def)

lemma js_le_PosInf [js_num_simps]: "x \<le> PosInf \<longleftrightarrow> x \<noteq> NaN"
  by (cases x) (auto simp: less_eq_jsnum_def)

lemma js_NaN_le [js_num_simps]: "\<not> NaN \<le> x" "\<not> x \<le> NaN"
  by (cases x; simp add: less_eq_jsnum_def)+

lemma js_NaN_arith [js_num_simps]:
  "NaN + x = NaN" "x + NaN = NaN" "NaN - x = NaN" "x - NaN = NaN"
  "NaN * x = NaN" "x * NaN = NaN" "NaN / x = NaN" "x / NaN = NaN"
  by (cases x; simp add: minus_jsnum_def)+

lemma js_get_in_range [js_num_simps]: "k < length xs \<Longrightarrow> js_get xs k = xs ! k"
  by (simp add: js_get_def)

lemma js_get_out_of_range [js_num_simps]: "length xs \<le> k \<Longrightarrow> js_get xs k = NaN"
  by (simp add: js_get_def)

lemma is_finite_iff: "is_finite x \<longleftrightarrow> x = Num (num_val x)"
  by (cases x) auto

lemma all_finite_nth:
  "all_finite xs \<Longrightarrow> k < length xs \<Longrightarrow> xs ! k = Num (num_val (xs ! k))"
  by (simp add: all_finite_def list_all_length is_finite_iff)

lemma all_finite_map_Num [simp]: "all_finite (map Num xs)"
  by (simp add: all_finite_def list_all_iff)

text \<open>\<open>Math.log10\<close> on a quotient of positive numbers is strictly monotone.\<close>

lemma js_log10_div_mono:
  assumes "0 < s" "0 < n1" "n1 < n2"
  shows "js_log10 (Num s / Num n2) = Num (log 10 (s / n2))"
    and "js_log10 (Num s / Num n1) = Num (log 10 (s / n1))"
    and "log 10 (s / n2) < log 10 (s / n1)"
  using assms by (simp_all add: frac_less2)

end
