(* ===== verification/OscConfig.thy ===== *)
theory OscConfig
  imports JsNum
begin

text \<open>
  The closure \<open>OscillatorTestingUtils\<close> of
  \<open>src/third_party/WebKit/LayoutTests/webaudio/resources/oscillator-testing.js\<close>
  keeps two kinds of module-level variables: constants fixing the sweep and the WAV
  scaling, and mutable variables shared by every call of the returned functions (the
  three thresholds, the reference channel, and the two power accumulators).  The
  constants are HOL constants; the mutable variables form the record
  \<open>osc_module\<close>, threaded through every operation that touches them.  The unused
  module variable \<open>context = 0\<close> is shadowed by every function parameter of the same
  name and is not modelled.
\<close>

subsection \<open>Constants\<close>

definition sampleRate :: real where
  "sampleRate = 44100"

definition nyquist :: real where
  "nyquist = 0.5 * sampleRate"

definition lengthInSeconds :: real where
  "lengthInSeconds = 4"

definition lowFrequency :: real where
  "lowFrequency = 10"

definition highFrequency :: real where
  "highFrequency = nyquist + 2000"

definition waveScaleFactor :: real where
  "waveScaleFactor = 32768"

subsection \<open>Mutable module state\<close>

text \<open>
  \<open>reference\<close> starts as the number \<open>0\<close>; indexing a number gives
  \<open>undefined\<close>, exactly as indexing past the end of an array does, so under
  \<open>js_get\<close> the initial value behaves as the empty channel.
\<close>

record osc_module =
  thresholdSNR :: jsnum
  thresholdDiff :: jsnum
  thresholdDiffCount :: jsnum
  reference :: "jsnum list"
  signalPower :: jsnum
  noisePower :: jsnum

definition osc_module_init :: osc_module where
  "osc_module_init =
     \<lparr>thresholdSNR = Num 10000, thresholdDiff = Num 0, thresholdDiffCount = Num 0,
      reference = [], signalPower = Num 0, noisePower = Num 0\<rparr>"

text \<open>
  The argument of \<open>setThresholds\<close> is an object with the properties \<open>snr\<close>,
  \<open>maxDiff\<close> and \<open>diffCount\<close> (the last is the field \<open>diffCountLimit\<close> here,
  since \<open>diffCount\<close> names the loop counter of \<open>checkResult\<close>).  A missing
  property reads as \<open>undefined\<close>, which compares like \<open>NaN\<close>.
\<close>

record thresholds_arg =
  snr :: jsnum
  maxDiff :: jsnum
  diffCountLimit :: jsnum

definition setThresholds :: "thresholds_arg \<Rightarrow> osc_module \<Rightarrow> osc_module" where
  "setThresholds thresholds st =
     st\<lparr>thresholdSNR := snr thresholds,
        thresholdDiff := maxDiff thresholds,
        thresholdDiffCount := diffCountLimit thresholds\<rparr>"

text \<open>
  A caller passes a JavaScript object: a map from property names to values, in which an
  absent property reads as \<open>undefined\<close>.  The thresholds only ever meet \<open>>=\<close> and
  \<open><=\<close>, where \<open>undefined\<close> converts to \<open>NaN\<close>, so an absent property is read as
  \<open>NaN\<close>.
\<close>

type_synonym js_object = "string \<rightharpoonup> jsnum"

definition js_prop :: "js_object \<Rightarrow> string \<Rightarrow> jsnum" where
  "js_prop obj name = (case obj name of Some v \<Rightarrow> v | None \<Rightarrow> NaN)"

definition thresholds_of_object :: "js_object \<Rightarrow> thresholds_arg" where
  "thresholds_of_object thresholds =
     \<lparr>snr = js_prop thresholds ''snr'', maxDiff = js_prop thresholds ''maxDiff'',
      diffCountLimit = js_prop thresholds ''diffCount''\<rparr>"

subsection \<open>The exported object\<close>

text \<open>
  The object literal returned by the closure copies the values of the module
  variables at the moment it is built; the two functions it exports operate on the
  module state (they are \<open>setThresholds\<close> above and \<open>runTest\<close> in theory
  \<open>Pipeline\<close>).
\<close>

record osc_api =
  api_sampleRate :: real
  api_lengthInSeconds :: real
  api_thresholdSNR :: jsnum
  api_thresholdDiff :: jsnum
  api_thresholdDiffCount :: jsnum
  api_waveScaleFactor :: real

definition osc_api_export :: "osc_module \<Rightarrow> osc_api" where
  "osc_api_export st =
     \<lparr>api_sampleRate = sampleRate, api_lengthInSeconds = lengthInSeconds,
      api_thresholdSNR = thresholdSNR st, api_thresholdDiff = thresholdDiff st,
      api_thresholdDiffCount = thresholdDiffCount st, api_waveScaleFactor = waveScaleFactor\<rparr>"

definition OscillatorTestingUtils :: osc_api where
  "OscillatorTestingUtils = osc_api_export osc_module_init"

subsection \<open>Evaluated constants\<close>

lemma osc_constants_eval:
  "nyquist = 22050" "highFrequency = 24050" "lowFrequency = 10" "lengthInSeconds = 4"
  "sampleRate = 44100" "waveScaleFactor = 32768"
  by (simp_all add: nyquist_def highFrequency_def sampleRate_def lowFrequency_def
      lengthInSeconds_def waveScaleFactor_def)

end
