(* ===== verification/Comparator.thy ===== *)
theory Comparator
  imports OscConfig
begin

text \<open>
  \<open>calculateSNR\<close> and \<open>checkResult\<close> (oscillator-testing.js, lines 86--89 and
  109--147).  The loop of \<open>checkResult\<close> runs over the rendered channel; its locals
  \<open>maxError\<close>, \<open>errorPosition\<close> and \<open>diffCount\<close> live in \<open>check_state\<close>, a
  record extension of the module state, because the same loop body also adds to the
  module-level accumulators \<open>noisePower\<close> and \<open>signalPower\<close>, which nothing ever
  resets.  After the loop the three \<open>should\<close> assertions are recorded in a report list
  and the rendered buffer is offered to the external \<open>downloadAudioBuffer\<close>.
\<close>

subsection \<open>Audio buffers and the assertion log\<close>

text \<open>
  A Web Audio \<open>AudioBuffer\<close> has at least one channel; \<open>getChannelData(0)\<close> is
  its first.
\<close>

record audio_buffer =
  channel0 :: "jsnum list"
  other_channels :: "jsnum list list"
  buffer_sampleRate :: real

definition getChannelData0 :: "audio_buffer \<Rightarrow> jsnum list" where
  "getChannelData0 b = channel0 b"

text \<open>
  The \<open>should(actual, name).beGreaterThanOrEqualTo(expected)\<close> and
  \<open>beLessThanOrEqualTo\<close> assertions of the test harness record the comparison and
  its outcome; the outcome is JavaScript's \<open>>=\<close> or \<open><=\<close> on the two values.
\<close>

datatype comparison = GreaterThanOrEqualTo | LessThanOrEqualTo

datatype assertion_label = SNRLabel | MaxDiffLabel | DiffCountLabel nat

datatype report =
  Assertion assertion_label jsnum comparison jsnum bool
  | SavedReference string

fun should_holds :: "comparison \<Rightarrow> jsnum \<Rightarrow> jsnum \<Rightarrow> bool" where
  "should_holds GreaterThanOrEqualTo actual expected = (expected \<le> actual)"
| "should_holds LessThanOrEqualTo actual expected = (actual \<le> expected)"

definition should :: "jsnum \<Rightarrow> assertion_label \<Rightarrow> comparison \<Rightarrow> jsnum \<Rightarrow> report" where
  "should actual label cmp expected =
     Assertion label actual cmp expected (should_holds cmp actual expected)"

fun report_passed :: "report \<Rightarrow> bool" where
  "report_passed (Assertion _ _ _ _ b) = b"
| "report_passed (SavedReference _) = True"

definition all_passed :: "report list \<Rightarrow> bool" where
  "all_passed rs \<longleftrightarrow> list_all report_passed rs"

subsection \<open>The signal-to-noise ratio\<close>

definition calculateSNR :: "jsnum \<Rightarrow> jsnum \<Rightarrow> jsnum" where
  "calculateSNR sPower nPower = Num 10 * js_log10 (sPower / nPower)"

subsection \<open>The comparison loop\<close>

record check_state = osc_module +
  maxError :: jsnum
  errorPosition :: int
  diffCount :: nat

text \<open>One iteration, in the order of the source's statements.\<close>

definition checkResult_body :: "jsnum list \<Rightarrow> check_state \<Rightarrow> nat \<Rightarrow> check_state" where
  "checkResult_body renderedData s k =
     (let diff = renderedData ! k - js_get (reference s) k;
          s = s\<lparr>noisePower := noisePower s + diff * diff\<rparr>;
          s = s\<lparr>signalPower := signalPower s + js_get (reference s) k * js_get (reference s) k\<rparr>;
          s = (if maxError s < \<bar>diff\<bar> then s\<lparr>maxError := \<bar>diff\<bar>, errorPosition := int k\<rparr>
               else s)
      in if 0 < diff then s\<lparr>diffCount := diffCount s + 1\<rparr> else s)"

definition checkResult_start :: "osc_module \<Rightarrow> check_state" where
  "checkResult_start st = osc_module.extend st (check_state.fields (Num (-1)) (-1) 0)"

definition checkResult_loop :: "jsnum list \<Rightarrow> osc_module \<Rightarrow> check_state" where
  "checkResult_loop renderedData st =
     foldl (checkResult_body renderedData) (checkResult_start st) [0..<length renderedData]"

subsection \<open>\<open>checkResult\<close>\<close>

text \<open>
  The external \<open>downloadAudioBuffer(buffer, filename, true)\<close> reports whether the
  file was saved; only then is the notice logged.
\<close>

definition actual_filename :: "string \<Rightarrow> string" where
  "actual_filename oscType = ''oscillator-'' @ oscType @ ''-actual.wav''"

definition checkResult ::
  "(audio_buffer \<Rightarrow> string \<Rightarrow> bool) \<Rightarrow> audio_buffer \<Rightarrow> string \<Rightarrow> osc_module
     \<Rightarrow> osc_module \<times> report list" where
  "checkResult downloadAudioBuffer renderedBuffer oscType st =
     (let renderedData = getChannelData0 renderedBuffer;
          s = checkResult_loop renderedData st;
          snr = calculateSNR (signalPower s) (noisePower s);
          r_snr = should snr SNRLabel GreaterThanOrEqualTo (thresholdSNR s);
          r_max = should (maxError s) MaxDiffLabel LessThanOrEqualTo (thresholdDiff s);
          r_cnt = should (Num (real (diffCount s))) (DiffCountLabel (length renderedData))
                    LessThanOrEqualTo (thresholdDiffCount s);
          filename = actual_filename oscType;
          saved = (if downloadAudioBuffer renderedBuffer filename
                   then [SavedReference filename] else [])
      in (osc_module.truncate s, [r_snr, r_max, r_cnt] @ saved))"

subsection \<open>Abstract specification of the comparison\<close>

text \<open>
  The comparison promised by the specification (section 4.2): from the vector of
  sample differences \<open>rendered[k] - reference[k]\<close>, the noise power is the sum of
  squared differences, the signal power the sum of squared reference samples, the
  maximum error the largest absolute difference (\<open>-1\<close> for no samples), its
  position the first index where it is reached (\<open>-1\<close> for none), and the
  difference count the number of strictly positive differences.  These are stated
  declaratively, with no loop, over exact reals.
\<close>

definition sample_diff :: "jsnum list \<Rightarrow> jsnum list \<Rightarrow> nat \<Rightarrow> real" where
  "sample_diff rd ref k = num_val (rd ! k) - num_val (ref ! k)"

definition sample_diffs :: "jsnum list \<Rightarrow> jsnum list \<Rightarrow> real list" where
  "sample_diffs rd ref = map (sample_diff rd ref) [0..<length rd]"

definition spec_noisePower :: "real list \<Rightarrow> real" where
  "spec_noisePower ds = sum_list (map (\<lambda>d. d * d) ds)"

definition spec_signalPower :: "real list \<Rightarrow> real" where
  "spec_signalPower rs = sum_list (map (\<lambda>r. r * r) rs)"

definition spec_maxError :: "real list \<Rightarrow> real" where
  "spec_maxError ds = (if ds = [] then -1 else Max (abs ` set ds))"

definition spec_errorPosition :: "real list \<Rightarrow> int" where
  "spec_errorPosition ds =
     (case find (\<lambda>k. \<bar>ds ! k\<bar> = spec_maxError ds) [0..<length ds] of
        None \<Rightarrow> -1 | Some k \<Rightarrow> int k)"

definition spec_diffCount :: "real list \<Rightarrow> nat" where
  "spec_diffCount ds = length (filter (\<lambda>d. 0 < d) ds)"

text \<open>The state after the first \<open>n\<close> iterations of the loop.\<close>

definition loop_prefix :: "jsnum list \<Rightarrow> osc_module \<Rightarrow> nat \<Rightarrow> check_state" where
  "loop_prefix rd st n = foldl (checkResult_body rd) (checkResult_start st) [0..<n]"

subsection \<open>One iteration of the loop\<close>

lemma checkResult_body_fields:
  "noisePower (checkResult_body rd s k) = noisePower s + (rd ! k - js_get (reference s) k) * (rd ! k - js_get (reference s) k)"
  "signalPower (checkResult_body rd s k) =
     signalPower s + js_get (reference s) k * js_get (reference s) k"
  "maxError (checkResult_body rd s k) = (if maxError s < \<bar>(rd ! k - js_get (reference s) k)\<bar> then \<bar>(rd ! k - js_get (reference s) k)\<bar> else maxError s)"
  "errorPosition (checkResult_body rd s k) = (if maxError s < \<bar>(rd ! k - js_get (reference s) k)\<bar> then int k else errorPosition s)"
  "diffCount (checkResult_body rd s k) = (if 0 < (rd ! k - js_get (reference s) k) then diffCount s + 1 else diffCount s)"
  "reference (checkResult_body rd s k) = reference s"
  "thresholdSNR (checkResult_body rd s k) = thresholdSNR s"
  "thresholdDiff (checkResult_body rd s k) = thresholdDiff s"
  "thresholdDiffCount (checkResult_body rd s k) = thresholdDiffCount s"
  unfolding checkResult_body_def Let_def by (simp_all split: if_split)

lemma finite_diff:
  assumes "all_finite rd" "all_finite ref" "k < length rd" "length rd \<le> length ref"
  shows "rd ! k - js_get ref k = Num (sample_diff rd ref k)"
    and "js_get ref k = Num (num_val (ref ! k))"
proof -
  have k: "k < length ref" using assms by simp
  obtain a where a: "rd ! k = Num a" using all_finite_nth[OF assms(1,3)] by blast
  obtain b where b: "ref ! k = Num b" using all_finite_nth[OF assms(2) k] by blast
  show "rd ! k - js_get ref k = Num (sample_diff rd ref k)"
    by (simp add: a b k js_get_in_range js_minus_Num sample_diff_def)
  show "js_get ref k = Num (num_val (ref ! k))"
    by (simp add: b k js_get_in_range)
qed

lemma checkResult_start_fields:
  "noisePower (checkResult_start st) = noisePower st"
  "signalPower (checkResult_start st) = signalPower st"
  "reference (checkResult_start st) = reference st"
  "maxError (checkResult_start st) = Num (-1)"
  "errorPosition (checkResult_start st) = -1"
  "diffCount (checkResult_start st) = 0"
  "osc_module.truncate (checkResult_start st) = st"
  by (simp_all add: checkResult_start_def osc_module.defs check_state.defs)

lemma loop_reference:
  "reference (foldl (checkResult_body rd) s [0..<n]) = reference s"
  by (induction n) (simp_all add: checkResult_body_fields)

subsection \<open>The loop, by induction on the number of iterations\<close>

lemma loop_prefix_Suc:
  "loop_prefix rd st (Suc n) = checkResult_body rd (loop_prefix rd st n) n"
  by (simp add: loop_prefix_def)

lemma loop_prefix_reference: "reference (loop_prefix rd st n) = reference st"
  by (simp add: loop_prefix_def loop_reference checkResult_start_fields)

lemma loop_prefix_step_diff:
  assumes "all_finite rd" "all_finite (reference st)" "length rd \<le> length (reference st)"
    and "n < length rd"
  shows "rd ! n - js_get (reference (loop_prefix rd st n)) n = Num (sample_diff rd (reference st) n)"
    and "js_get (reference (loop_prefix rd st n)) n = Num (num_val (reference st ! n))"
  using finite_diff[OF assms(1,2,4,3)] by (simp_all add: loop_prefix_reference)

lemma loop_prefix_powers:
  assumes "all_finite rd" "all_finite (reference st)" "length rd \<le> length (reference st)"
    and "noisePower st = Num noise_init" "signalPower st = Num signal_init"
  shows "n \<le> length rd \<Longrightarrow>
    noisePower (loop_prefix rd st n) =
      Num (noise_init + (\<Sum>k<n. sample_diff rd (reference st) k * sample_diff rd (reference st) k)) \<and>
    signalPower (loop_prefix rd st n) =
      Num (signal_init + (\<Sum>k<n. num_val (reference st ! k) * num_val (reference st ! k)))"
proof (induction n)
  case 0
  then show ?case by (simp add: loop_prefix_def checkResult_start_fields assms(4,5))
next
  case (Suc n)
  then have n: "n < length rd" by simp
  show ?case
    using Suc.IH n loop_prefix_step_diff[OF assms(1-3) n]
    by (simp add: loop_prefix_Suc checkResult_body_fields algebra_simps)
qed

lemma loop_prefix_diffCount:
  assumes "all_finite rd" "all_finite (reference st)" "length rd \<le> length (reference st)"
  shows "n \<le> length rd \<Longrightarrow>
    diffCount (loop_prefix rd st n) = card {k. k < n \<and> 0 < sample_diff rd (reference st) k}"
proof (induction n)
  case 0
  then show ?case by (simp add: loop_prefix_def checkResult_start_fields)
next
  case (Suc n)
  then have n: "n < length rd" by simp
  show ?case
    using Suc.IH n loop_prefix_step_diff[OF assms(1-3) n]
    by (simp add: loop_prefix_Suc checkResult_body_fields card_lessThan_filter_Suc js_zero)
qed

lemma loop_prefix_max:
  assumes "all_finite rd" "all_finite (reference st)" "length rd \<le> length (reference st)"
  defines "d \<equiv> sample_diff rd (reference st)"
  shows "n \<le> length rd \<Longrightarrow>
    (n = 0 \<and> maxError (loop_prefix rd st n) = Num (-1) \<and> errorPosition (loop_prefix rd st n) = -1) \<or>
    (\<exists>p<n. errorPosition (loop_prefix rd st n) = int p \<and>
       maxError (loop_prefix rd st n) = Num \<bar>d p\<bar> \<and>
       (\<forall>k<n. \<bar>d k\<bar> \<le> \<bar>d p\<bar>) \<and> (\<forall>k<p. \<bar>d k\<bar> < \<bar>d p\<bar>))"
proof (induction n)
  case 0
  then show ?case by (simp add: loop_prefix_def checkResult_start_fields)
next
  case (Suc n)
  then have n: "n < length rd" by simp
  have diff: "rd ! n - js_get (reference (loop_prefix rd st n)) n = Num (d n)"
    using loop_prefix_step_diff[OF assms(1-3) n] by (simp add: d_def)
  from Suc.IH n consider
      (first) "n = 0" "maxError (loop_prefix rd st n) = Num (-1)"
    | (later) p where "p < n" "errorPosition (loop_prefix rd st n) = int p"
        "maxError (loop_prefix rd st n) = Num \<bar>d p\<bar>"
        "\<forall>k<n. \<bar>d k\<bar> \<le> \<bar>d p\<bar>" "\<forall>k<p. \<bar>d k\<bar> < \<bar>d p\<bar>"
    by auto
  then show ?case
  proof cases
    case first
    have "(-1::real) < \<bar>d 0\<bar>" by simp
    with first diff show ?thesis
      by (auto simp: loop_prefix_Suc checkResult_body_fields intro!: exI[of _ 0])
  next
    case later
    show ?thesis
    proof (cases "\<bar>d p\<bar> < \<bar>d n\<bar>")
      case True
      with later show ?thesis
        by (auto simp: loop_prefix_Suc checkResult_body_fields diff less_Suc_eq intro!: exI[of _ n])
    next
      case False
      with later show ?thesis
        by (auto simp: loop_prefix_Suc checkResult_body_fields diff less_Suc_eq intro!: exI[of _ p])
    qed
  qed
qed

subsection \<open>From the loop's invariants to the abstract specification\<close>

lemma sum_list_map_upt_lessThan:
  "sum_list (map f [0..<n]) = (\<Sum>k<n. f k)"
  by (simp add: interv_sum_list_conv_sum_set_nat atLeast0LessThan)

lemma spec_noisePower_upt:
  "spec_noisePower (map d [0..<n]) = (\<Sum>k<n. d k * d k)"
  by (simp add: spec_noisePower_def sum_list_map_upt_lessThan comp_def)

lemma spec_signalPower_take:
  "n \<le> length xs \<Longrightarrow>
     spec_signalPower (map num_val (take n xs)) = (\<Sum>k<n. num_val (xs ! k) * num_val (xs ! k))"
proof -
  assume "n \<le> length xs"
  then have "map num_val (take n xs) = map (\<lambda>k. num_val (xs ! k)) [0..<n]"
    by (simp add: list_eq_iff_nth_eq)
  then show ?thesis
    by (simp add: spec_signalPower_def sum_list_map_upt_lessThan comp_def)
qed

lemma spec_diffCount_upt:
  "spec_diffCount (map d [0..<n]) = card {k. k < n \<and> 0 < d k}"
proof -
  have "{i. i < n \<and> 0 < map d [0..<n] ! i} = {k. k < n \<and> 0 < d k}"
    by auto
  then show ?thesis
    by (simp add: spec_diffCount_def length_filter_conv_card)
qed

lemma spec_max_first:
  assumes "p < n" "\<forall>k<n. \<bar>d k\<bar> \<le> \<bar>d p\<bar>" "\<forall>k<p. \<bar>d k\<bar> < \<bar>d p\<bar>"
  shows "spec_maxError (map d [0..<n]) = \<bar>d p\<bar>"
    and "spec_errorPosition (map d [0..<n]) = int p"
proof -
  have max: "Max (abs ` set (map d [0..<n])) = \<bar>d p\<bar>"
    using assms(1,2) by (intro Max_eqI) auto
  show m: "spec_maxError (map d [0..<n]) = \<bar>d p\<bar>"
    using assms(1) max by (simp add: spec_maxError_def)
  have "find (\<lambda>k. \<bar>map d [0..<n] ! k\<bar> = spec_maxError (map d [0..<n])) [0..<length (map d [0..<n])] = Some p"
    unfolding m find_Some_iff using assms(1,3) by (auto intro!: exI[of _ p])
  then show "spec_errorPosition (map d [0..<n]) = int p"
    by (simp add: spec_errorPosition_def)
qed

lemma spec_max_empty:
  "spec_maxError [] = -1" "spec_errorPosition [] = -1"
  by (simp_all add: spec_maxError_def spec_errorPosition_def)

subsection \<open>Refinement\<close>

text \<open>
  C1.  On finite samples, with a reference channel at least as long as the rendered
  one, the loop of \<open>checkResult\<close> implements the abstract comparison: it adds the
  specified noise and signal powers to the accumulators it starts from, and leaves the
  specified maximum error, its first position, and the count of positive differences
  in its locals.
\<close>

theorem checkResult_loop_refines_spec:
  assumes "all_finite rd" "all_finite (reference st)" "length rd \<le> length (reference st)"
    and "noisePower st = Num noise_init" "signalPower st = Num signal_init"
  shows "noisePower (checkResult_loop rd st) = Num (noise_init + spec_noisePower (sample_diffs rd (reference st))) \<and>
    signalPower (checkResult_loop rd st) =
      Num (signal_init + spec_signalPower (map num_val (take (length rd) (reference st)))) \<and>
    maxError (checkResult_loop rd st) = Num (spec_maxError (sample_diffs rd (reference st))) \<and>
    errorPosition (checkResult_loop rd st) = spec_errorPosition (sample_diffs rd (reference st)) \<and>
    diffCount (checkResult_loop rd st) = spec_diffCount (sample_diffs rd (reference st))"
proof -
  let ?n = "length rd"
  let ?d = "sample_diff rd (reference st)"
  have loop: "checkResult_loop rd st = loop_prefix rd st ?n"
    by (simp add: checkResult_loop_def loop_prefix_def)
  have ds: "sample_diffs rd (reference st) = map ?d [0..<?n]"
    by (simp add: sample_diffs_def)
  have pw: "noisePower (loop_prefix rd st ?n) = Num (noise_init + (\<Sum>k<?n. ?d k * ?d k)) \<and>
      signalPower (loop_prefix rd st ?n) =
        Num (signal_init + (\<Sum>k<?n. num_val (reference st ! k) * num_val (reference st ! k)))"
    using loop_prefix_powers[OF assms] by simp
  have cnt: "diffCount (loop_prefix rd st ?n) = card {k. k < ?n \<and> 0 < ?d k}"
    using loop_prefix_diffCount[OF assms(1-3)] by simp
  have mx: "maxError (loop_prefix rd st ?n) = Num (spec_maxError (map ?d [0..<?n])) \<and>
      errorPosition (loop_prefix rd st ?n) = spec_errorPosition (map ?d [0..<?n])"
    using loop_prefix_max[OF assms(1-3), of ?n] spec_max_first[of _ ?n ?d] spec_max_empty
    by auto
  show ?thesis
    using pw cnt mx assms(3)
    by (simp add: loop ds spec_noisePower_upt spec_signalPower_take spec_diffCount_upt)
qed


theorem checkResult_loop_refines_spec_witness:
  "errorPosition (checkResult_loop [Num 1, Num 1, Num 1, Num 2]
       (osc_module_init\<lparr>reference := [Num 1, Num 1, Num 1, Num 1]\<rparr>)) = 3 \<and>
   maxError (checkResult_loop [Num 1, Num 1, Num 1, Num 2]
       (osc_module_init\<lparr>reference := [Num 1, Num 1, Num 1, Num 1]\<rparr>)) = Num 1 \<and>
   noisePower (checkResult_loop [Num 1, Num 1, Num 1, Num 2]
       (osc_module_init\<lparr>reference := [Num 1, Num 1, Num 1, Num 1]\<rparr>)) = Num 1 \<and>
   diffCount (checkResult_loop [Num 1, Num 1, Num 1, Num 2]
       (osc_module_init\<lparr>reference := [Num 1, Num 1, Num 1, Num 1]\<rparr>)) = 1"
proof -
  have fin: "all_finite [Num 1, Num 1, Num 1, Num 2]" "all_finite [Num 1, Num 1, Num 1, Num 1]"
    by (simp_all add: all_finite_def)
  have ds: "sample_diffs [Num 1, Num 1, Num 1, Num 2] [Num 1, Num 1, Num 1, Num 1] = [0, 0, 0, 1]"
    by (simp add: sample_diffs_def sample_diff_def upt_rec)
  have mx: "spec_maxError [0, 0, 0, 1] = 1"
    by (simp add: spec_maxError_def)
  show ?thesis
    using checkResult_loop_refines_spec[where rd = "[Num 1, Num 1, Num 1, Num 2]"
        and st = "osc_module_init\<lparr>reference := [Num 1, Num 1, Num 1, Num 1]\<rparr>" and noise_init = 0 and signal_init = 0]
    by (simp add: fin osc_module_init_def ds mx spec_errorPosition_def spec_noisePower_def
        spec_diffCount_def upt_rec)
qed

subsection \<open>The whole loop and the frame of \<open>checkResult\<close>\<close>

lemma loop_prefix_frame:
  "thresholdSNR (loop_prefix rd st n) = thresholdSNR st \<and>
   thresholdDiff (loop_prefix rd st n) = thresholdDiff st \<and>
   thresholdDiffCount (loop_prefix rd st n) = thresholdDiffCount st"
  by (induction n) (simp_all add: loop_prefix_def checkResult_body_fields checkResult_start_fields
      checkResult_start_def osc_module.defs check_state.defs)

lemma checkResult_loop_prefix: "checkResult_loop rd st = loop_prefix rd st (length rd)"
  by (simp add: checkResult_loop_def loop_prefix_def)

lemma checkResult_loop_frame:
  "thresholdSNR (checkResult_loop rd st) = thresholdSNR st"
  "thresholdDiff (checkResult_loop rd st) = thresholdDiff st"
  "thresholdDiffCount (checkResult_loop rd st) = thresholdDiffCount st"
  "reference (checkResult_loop rd st) = reference st"
  using loop_prefix_frame[of rd st "length rd"] loop_prefix_reference[of rd st "length rd"]
  by (simp_all add: checkResult_loop_prefix)

lemma checkResult_loop_truncate:
  "osc_module.truncate (checkResult_loop rd st) =
     st\<lparr>signalPower := signalPower (checkResult_loop rd st),
        noisePower := noisePower (checkResult_loop rd st)\<rparr>"
  by (simp add: checkResult_loop_frame osc_module.defs)

lemma checkResult_unfold:
  "checkResult dl b ty st =
     (let s = checkResult_loop (channel0 b) st in
      (st\<lparr>signalPower := signalPower s, noisePower := noisePower s\<rparr>,
       [should (calculateSNR (signalPower s) (noisePower s)) SNRLabel GreaterThanOrEqualTo (thresholdSNR st),
        should (maxError s) MaxDiffLabel LessThanOrEqualTo (thresholdDiff st),
        should (Num (real (diffCount s))) (DiffCountLabel (length (channel0 b))) LessThanOrEqualTo
          (thresholdDiffCount st)] @
       (if dl b (actual_filename ty) then [SavedReference (actual_filename ty)] else [])))"
  by (simp add: checkResult_def getChannelData0_def Let_def checkResult_loop_truncate
      checkResult_loop_frame)

lemma checkResult_snd:
  "snd (checkResult dl b ty st) =
     [Assertion SNRLabel (calculateSNR (signalPower (checkResult_loop (channel0 b) st))
                                       (noisePower (checkResult_loop (channel0 b) st)))
        GreaterThanOrEqualTo (thresholdSNR st)
        (thresholdSNR st \<le> calculateSNR (signalPower (checkResult_loop (channel0 b) st))
                                        (noisePower (checkResult_loop (channel0 b) st))),
      Assertion MaxDiffLabel (maxError (checkResult_loop (channel0 b) st)) LessThanOrEqualTo
        (thresholdDiff st) (maxError (checkResult_loop (channel0 b) st) \<le> thresholdDiff st),
      Assertion (DiffCountLabel (length (channel0 b)))
        (Num (real (diffCount (checkResult_loop (channel0 b) st)))) LessThanOrEqualTo
        (thresholdDiffCount st)
        (Num (real (diffCount (checkResult_loop (channel0 b) st))) \<le> thresholdDiffCount st)] @
     (if dl b (actual_filename ty) then [SavedReference (actual_filename ty)] else [])"
  by (simp add: checkResult_unfold Let_def should_def)

lemma checkResult_fst:
  "fst (checkResult dl b ty st) =
     st\<lparr>signalPower := signalPower (checkResult_loop (channel0 b) st),
        noisePower := noisePower (checkResult_loop (channel0 b) st)\<rparr>"
  by (simp add: checkResult_unfold Let_def)

lemma checkResult_loop_powers:
  assumes "all_finite rd" "all_finite (reference st)" "length rd \<le> length (reference st)"
    and "noisePower st = Num noise_init" "signalPower st = Num signal_init"
  shows "noisePower (checkResult_loop rd st) =
           Num (noise_init + (\<Sum>k<length rd. sample_diff rd (reference st) k * sample_diff rd (reference st) k))"
    and "signalPower (checkResult_loop rd st) =
           Num (signal_init + (\<Sum>k<length rd. num_val (reference st ! k) * num_val (reference st ! k)))"
  using loop_prefix_powers[OF assms, of "length rd"] by (simp_all add: checkResult_loop_prefix)

lemma checkResult_loop_diffCount:
  assumes "all_finite rd" "all_finite (reference st)" "length rd \<le> length (reference st)"
  shows "diffCount (checkResult_loop rd st) = card {k. k < length rd \<and> 0 < sample_diff rd (reference st) k}"
  using loop_prefix_diffCount[OF assms, of "length rd"] by (simp add: checkResult_loop_prefix)

lemma checkResult_loop_max:
  assumes "all_finite rd" "all_finite (reference st)" "length rd \<le> length (reference st)" "rd \<noteq> []"
  obtains p where "p < length rd" "errorPosition (checkResult_loop rd st) = int p"
    "maxError (checkResult_loop rd st) = Num \<bar>sample_diff rd (reference st) p\<bar>"
    "\<forall>k<length rd. \<bar>sample_diff rd (reference st) k\<bar> \<le> \<bar>sample_diff rd (reference st) p\<bar>"
    "\<forall>k<p. \<bar>sample_diff rd (reference st) k\<bar> < \<bar>sample_diff rd (reference st) p\<bar>"
  using loop_prefix_max[OF assms(1-3), of "length rd"] assms(4) by (auto simp: checkResult_loop_prefix)

lemma sample_diff_self [simp]: "sample_diff xs xs k = 0"
  by (simp add: sample_diff_def)

lemma sum_squares_pos:
  fixes x :: "nat \<Rightarrow> real"
  assumes "j < n" "x j \<noteq> 0"
  shows "0 < (\<Sum>k<n. x k * x k)"
  using assms by (intro sum_pos2[of "{..<n}" j]) (auto simp: zero_less_mult_iff)

lemma calculateSNR_zero_noise:
  "0 < s \<Longrightarrow> calculateSNR (Num s) (Num 0) = PosInf"
  "calculateSNR (Num 0) (Num 0) = NaN"
  by (simp_all add: calculateSNR_def)

end
