(* ===== verification/Comparator_Scenarios.thy ===== *)
theory Comparator_Scenarios
  imports Comparator
begin

text \<open>
  Behaviour of \<open>checkResult\<close> (oscillator-testing.js, lines 109--147) on the inputs the
  specification singles out (section 8), and on the inputs it does not cover: reference
  and rendered channels of different lengths, \<open>NaN\<close> samples, empty buffers, and
  successive calls that share the module-level power accumulators.  Every theorem here
  rests on the loop lemmas of theory \<open>Comparator\<close>.
\<close>

text \<open>
  Well-formedness of the loop's locals: \<open>maxError\<close> and \<open>errorPosition\<close> keep their
  sentinels \<open>-1\<close> together, or hold a non-negative error (possibly \<open>+\<infinity>\<close>, never
  \<open>NaN\<close>) and a processed index; \<open>diffCount\<close> never exceeds the iterations.
\<close>

definition check_state_wf :: "nat \<Rightarrow> check_state \<Rightarrow> bool" where
  "check_state_wf n s \<longleftrightarrow>
     diffCount s \<le> n \<and>
     ((errorPosition s = -1 \<and> maxError s = Num (-1)) \<or>
      (0 \<le> errorPosition s \<and> errorPosition s < int n \<and> Num 0 \<le> maxError s))"

subsection \<open>Identical buffers\<close>

text \<open>
  C2.  Rendered data identical to the reference, with fresh accumulators and some
  non-zero sample: the noise power is zero and the signal power positive, so the SNR is
  \<open>+\<infinity>\<close>; the maximum difference and the count are 0; all three assertions pass
  for any SNR threshold other than \<open>NaN\<close> and non-negative difference thresholds.
\<close>

theorem checkResult_identical_passes:
  assumes "all_finite (channel0 b)" "reference st = channel0 b"
    and "noisePower st = Num 0" "signalPower st = Num 0"
    and "j < length (channel0 b)" "channel0 b ! j \<noteq> Num 0"
    and "thresholdSNR st \<noteq> NaN" "Num 0 \<le> thresholdDiff st" "Num 0 \<le> thresholdDiffCount st"
  shows "take 3 (snd (checkResult dl b ty st)) =
           [Assertion SNRLabel PosInf GreaterThanOrEqualTo (thresholdSNR st) True,
            Assertion MaxDiffLabel (Num 0) LessThanOrEqualTo (thresholdDiff st) True,
            Assertion (DiffCountLabel (length (channel0 b))) (Num 0) LessThanOrEqualTo
              (thresholdDiffCount st) True]
         \<and> all_passed (snd (checkResult dl b ty st))"
proof -
  let ?rd = "channel0 b"
  have fin: "all_finite (reference st)" "length ?rd \<le> length (reference st)"
    using assms(1,2) by simp_all
  have nz: "num_val (?rd ! j) \<noteq> 0"
    using assms(1,5,6) all_finite_nth[of ?rd j] by auto
  have sig: "0 < (\<Sum>k<length ?rd. num_val (reference st ! k) * num_val (reference st ! k))"
    using sum_squares_pos[of j "length ?rd" "\<lambda>k. num_val (?rd ! k)"] assms(2,5) nz by simp
  have pw: "noisePower (checkResult_loop ?rd st) = Num 0"
           "signalPower (checkResult_loop ?rd st) =
              Num (\<Sum>k<length ?rd. num_val (reference st ! k) * num_val (reference st ! k))"
    using checkResult_loop_powers[OF assms(1) fin assms(3,4)] assms(2)
    by (simp_all add: sample_diff_self)
  have cnt: "diffCount (checkResult_loop ?rd st) = 0"
    using checkResult_loop_diffCount[OF assms(1) fin] assms(2) by (simp add: sample_diff_self)
  obtain p where "maxError (checkResult_loop ?rd st) = Num \<bar>sample_diff ?rd (reference st) p\<bar>"
    using checkResult_loop_max[OF assms(1) fin] assms(5) by (metis less_nat_zero_code list.size(3))
  then have mx: "maxError (checkResult_loop ?rd st) = Num 0"
    using assms(2) by (simp add: sample_diff_self)
  show ?thesis
    using assms(7-9) sig
    by (simp add: checkResult_snd pw cnt mx calculateSNR_zero_noise js_le_PosInf all_passed_def)
qed

theorem checkResult_identical_passes_witness:
  "take 3 (snd (checkResult (\<lambda>_ _. False) \<lparr>channel0 = [Num 1, Num 2], other_channels = [], buffer_sampleRate = 44100\<rparr> ''sine'' (osc_module_init\<lparr>reference := [Num 1, Num 2]\<rparr>))) =
     [Assertion SNRLabel PosInf GreaterThanOrEqualTo (Num 10000) True,
      Assertion MaxDiffLabel (Num 0) LessThanOrEqualTo (Num 0) True,
      Assertion (DiffCountLabel 2) (Num 0) LessThanOrEqualTo (Num 0) True]
   \<and> all_passed (snd (checkResult (\<lambda>_ _. False) \<lparr>channel0 = [Num 1, Num 2], other_channels = [], buffer_sampleRate = 44100\<rparr> ''sine'' (osc_module_init\<lparr>reference := [Num 1, Num 2]\<rparr>)))"
  using checkResult_identical_passes[where b = "\<lparr>channel0 = [Num 1, Num 2], other_channels = [], buffer_sampleRate = 44100\<rparr>" and st = "osc_module_init\<lparr>reference := [Num 1, Num 2]\<rparr>" and j = 0 and dl = "\<lambda>_ _. False"
      and ty = "''sine''"]
  by (simp add: osc_module_init_def all_finite_def js_num_simps)

text \<open>
  C3.  Rendered data identical to an all-zero reference (any length, including none),
  with fresh accumulators: signal and noise power are both 0, \<open>0 / 0\<close> is \<open>NaN\<close>,
  so the SNR is \<open>NaN\<close> and its assertion fails whatever the threshold: a perfect match
  of a silent signal fails the test.
\<close>

theorem checkResult_silent_fails:
  assumes "channel0 b = replicate n (Num 0)" "reference st = channel0 b"
    and "noisePower st = Num 0" "signalPower st = Num 0"
  shows "hd (snd (checkResult dl b ty st)) =
           Assertion SNRLabel NaN GreaterThanOrEqualTo (thresholdSNR st) False
         \<and> \<not> all_passed (snd (checkResult dl b ty st))"
proof -
  let ?rd = "channel0 b"
  have fin: "all_finite ?rd" "all_finite (reference st)" "length ?rd \<le> length (reference st)"
    using assms(1,2) by (simp_all add: all_finite_def list_all_iff)
  have "noisePower (checkResult_loop ?rd st) = Num 0"
       "signalPower (checkResult_loop ?rd st) = Num 0"
    using checkResult_loop_powers[OF fin assms(3,4)] assms(1,2) by (simp_all add: sample_diff_self)
  then show ?thesis
    by (simp add: checkResult_snd calculateSNR_zero_noise js_NaN_le all_passed_def)
qed

theorem checkResult_silent_fails_witness:
  "hd (snd (checkResult (\<lambda>_ _. False) \<lparr>channel0 = replicate 3 (Num 0), other_channels = [], buffer_sampleRate = 44100\<rparr> ''sine'' (osc_module_init\<lparr>reference := replicate 3 (Num 0)\<rparr>))) =
     Assertion SNRLabel NaN GreaterThanOrEqualTo (Num 10000) False
   \<and> \<not> all_passed (snd (checkResult (\<lambda>_ _. False) \<lparr>channel0 = replicate 3 (Num 0), other_channels = [], buffer_sampleRate = 44100\<rparr> ''sine'' (osc_module_init\<lparr>reference := replicate 3 (Num 0)\<rparr>)))"
  using checkResult_silent_fails[where b = "\<lparr>channel0 = replicate 3 (Num 0), other_channels = [], buffer_sampleRate = 44100\<rparr>" and st = "osc_module_init\<lparr>reference := replicate 3 (Num 0)\<rparr>" and n = 3 and dl = "\<lambda>_ _. False"
      and ty = "''sine''"]
  by (simp add: osc_module_init_def)


subsection \<open>Scenarios of the specification\<close>

lemma all_finite_update:
  "all_finite xs \<Longrightarrow> all_finite (xs[j := Num x])"
  using set_update_subset_insert[of xs j "Num x"] by (auto simp: all_finite_def list_all_iff)

lemma all_finite_map_Num_fun:
  "all_finite (map (\<lambda>x. Num (f x)) xs)"
  by (simp add: all_finite_def list_all_iff)

lemma sample_diff_single:
  assumes "all_finite ref" "j < length ref" "k < length ref"
  shows "sample_diff (ref[j := Num (num_val (ref ! j) + eps)]) ref k = (if k = j then eps else 0)"
  using assms by (simp add: sample_diff_def nth_list_update)

text \<open>
  C4.  Rendered data equal to the reference except at one index \<open>j\<close>, where it
  exceeds the reference by \<open>eps > 0\<close>: the loop counts one positive difference,
  reports the maximum error \<open>eps\<close> at position \<open>j\<close>, and accumulates noise
  \<open>eps\<^sup>2\<close>.
\<close>

theorem checkResult_single_deviation:
  assumes "all_finite (reference st)" "j < length (reference st)" "0 < eps"
    and "noisePower st = Num 0" "signalPower st = Num 0"
  defines "rd \<equiv> (reference st)[j := Num (num_val (reference st ! j) + eps)]"
  shows "diffCount (checkResult_loop rd st) = 1 \<and>
         errorPosition (checkResult_loop rd st) = int j \<and>
         maxError (checkResult_loop rd st) = Num eps \<and>
         noisePower (checkResult_loop rd st) = Num (eps * eps)"
proof -
  let ?ref = "reference st"
  have len: "length rd = length ?ref" by (simp add: rd_def)
  have fin: "all_finite rd" "length rd \<le> length ?ref"
    using assms(1) by (simp_all add: rd_def all_finite_update)
  have d: "\<And>k. k < length rd \<Longrightarrow> sample_diff rd ?ref k = (if k = j then eps else 0)"
    using sample_diff_single[OF assms(1,2)] len by (simp add: rd_def)
  have noise: "(\<Sum>k<length rd. sample_diff rd ?ref k * sample_diff rd ?ref k) = eps * eps"
  proof -
    have "(\<Sum>k<length rd. sample_diff rd ?ref k * sample_diff rd ?ref k) =
          (\<Sum>k<length rd. if k = j then eps * eps else 0)"
      by (rule sum.cong) (simp_all add: d)
    then show ?thesis using assms(2) len by simp
  qed
  have cnt: "{k. k < length rd \<and> 0 < sample_diff rd ?ref k} = {j}"
    using d assms(2,3) len by (auto split: if_splits)
  have ne: "rd \<noteq> []" using assms(2) len by auto
  obtain p where p: "p < length rd" "errorPosition (checkResult_loop rd st) = int p"
      "maxError (checkResult_loop rd st) = Num \<bar>sample_diff rd ?ref p\<bar>"
      "\<forall>k<length rd. \<bar>sample_diff rd ?ref k\<bar> \<le> \<bar>sample_diff rd ?ref p\<bar>"
    using checkResult_loop_max[OF fin(1) assms(1) fin(2) ne] by blast
  have "eps \<le> \<bar>sample_diff rd ?ref p\<bar>"
    using p(4) d[of j] assms(2,3) len by fastforce
  then have pj: "p = j"
    using d[OF p(1)] assms(3) by (auto split: if_splits)
  show ?thesis
    using checkResult_loop_powers(1)[OF fin(1) assms(1) fin(2) assms(4,5)]
      checkResult_loop_diffCount[OF fin(1) assms(1) fin(2)] p(2,3) pj d[OF p(1)] assms(3)
    by (simp add: noise cnt)
qed

theorem checkResult_single_deviation_witness:
  "diffCount (checkResult_loop [Num 1, Num (5 / 2), Num 3] (osc_module_init\<lparr>reference := [Num 1, Num 2, Num 3]\<rparr>)) = 1 \<and>
   errorPosition (checkResult_loop [Num 1, Num (5 / 2), Num 3] (osc_module_init\<lparr>reference := [Num 1, Num 2, Num 3]\<rparr>)) = 1 \<and>
   maxError (checkResult_loop [Num 1, Num (5 / 2), Num 3] (osc_module_init\<lparr>reference := [Num 1, Num 2, Num 3]\<rparr>)) = Num (1 / 2) \<and>
   noisePower (checkResult_loop [Num 1, Num (5 / 2), Num 3] (osc_module_init\<lparr>reference := [Num 1, Num 2, Num 3]\<rparr>)) = Num (1 / 4)"
  using checkResult_single_deviation[where st = "osc_module_init\<lparr>reference := [Num 1, Num 2, Num 3]\<rparr>" and j = 1 and eps = "1 / 2"]
  by (simp add: osc_module_init_def all_finite_def)

text \<open>
  C5.  Rendered data uniformly \<open>c > 0\<close> below a non-empty reference: every
  difference is negative, so no difference is counted although the maximum error is
  \<open>c\<close>; only rendered samples above the reference are counted.
\<close>

theorem checkResult_uniformly_lower:
  assumes "all_finite (reference st)" "reference st \<noteq> []" "0 < c"
  defines "rd \<equiv> map (\<lambda>x. Num (num_val x - c)) (reference st)"
  shows "diffCount (checkResult_loop rd st) = 0 \<and> maxError (checkResult_loop rd st) = Num c"
proof -
  let ?ref = "reference st"
  have fin: "all_finite rd" "length rd \<le> length ?ref"
    by (simp_all add: rd_def all_finite_map_Num_fun)
  have d: "\<And>k. k < length rd \<Longrightarrow> sample_diff rd ?ref k = - c"
    by (simp add: rd_def sample_diff_def)
  have ne: "rd \<noteq> []" using assms(2) by (simp add: rd_def)
  obtain p where p: "p < length rd" "maxError (checkResult_loop rd st) = Num \<bar>sample_diff rd ?ref p\<bar>"
    using checkResult_loop_max[OF fin(1) assms(1) fin(2) ne] by blast
  have "{k. k < length rd \<and> 0 < sample_diff rd ?ref k} = {}"
    using d assms(3) by auto
  then show ?thesis
    using checkResult_loop_diffCount[OF fin(1) assms(1) fin(2)] p d[OF p(1)] assms(3) by simp
qed

theorem checkResult_uniformly_lower_witness:
  "diffCount (checkResult_loop [Num 0, Num 1] (osc_module_init\<lparr>reference := [Num 1, Num 2]\<rparr>)) = 0 \<and>
   maxError (checkResult_loop [Num 0, Num 1] (osc_module_init\<lparr>reference := [Num 1, Num 2]\<rparr>)) = Num 1"
  using checkResult_uniformly_lower[where st = "osc_module_init\<lparr>reference := [Num 1, Num 2]\<rparr>" and c = 1]
  by (simp add: osc_module_init_def all_finite_def)

subsection \<open>Length mismatch, accumulation and edge cases\<close>

lemma checkResult_body_NaN:
  "noisePower s = NaN \<Longrightarrow> noisePower (checkResult_body rd s k) = NaN"
  "signalPower s = NaN \<Longrightarrow> signalPower (checkResult_body rd s k) = NaN"
  "length (reference s) \<le> k \<Longrightarrow> noisePower (checkResult_body rd s k) = NaN"
  "length (reference s) \<le> k \<Longrightarrow> signalPower (checkResult_body rd s k) = NaN"
  by (simp_all add: checkResult_body_fields js_num_simps)

lemma loop_prefix_NaN:
  "length (reference st) < n \<Longrightarrow>
     noisePower (loop_prefix rd st n) = NaN \<and> signalPower (loop_prefix rd st n) = NaN"
proof (induction n)
  case 0
  then show ?case by simp
next
  case (Suc n)
  show ?case
  proof (cases "length (reference st) < n")
    case True
    with Suc.IH show ?thesis by (simp add: loop_prefix_Suc checkResult_body_NaN)
  next
    case False
    with Suc.prems have "length (reference (loop_prefix rd st n)) \<le> n"
      by (simp add: loop_prefix_reference)
    then show ?thesis by (simp add: loop_prefix_Suc checkResult_body_NaN)
  qed
qed

lemma loop_prefix_noise_NaN:
  "noisePower st = NaN \<Longrightarrow> noisePower (loop_prefix rd st n) = NaN"
  by (induction n) (simp_all add: loop_prefix_def checkResult_start_fields checkResult_body_NaN)

lemma calculateSNR_NaN:
  "calculateSNR s NaN = NaN" "calculateSNR NaN n = NaN"
  by (simp_all add: calculateSNR_def js_num_simps)

lemma checkResult_body_reference_cong:
  "js_get r1 k = js_get r2 k \<Longrightarrow>
     checkResult_body rd (s\<lparr>reference := r1\<rparr>) k =
       (checkResult_body rd (s\<lparr>reference := r2\<rparr>) k)\<lparr>reference := r1\<rparr>"
  by (simp add: checkResult_body_def Let_def)

lemma loop_prefix_reference_cong:
  "(\<forall>k<n. js_get r1 k = js_get r2 k) \<Longrightarrow>
     loop_prefix rd (st\<lparr>reference := r1\<rparr>) n =
       (loop_prefix rd (st\<lparr>reference := r2\<rparr>) n)\<lparr>reference := r1\<rparr>"
proof (induction n)
  case 0
  then show ?case
    by (simp add: loop_prefix_def checkResult_start_def osc_module.defs check_state.defs)
next
  case (Suc n)
  let ?s = "loop_prefix rd (st\<lparr>reference := r2\<rparr>) n"
  have ref: "?s\<lparr>reference := r2\<rparr> = ?s"
    by (simp add: loop_prefix_reference)
  have "checkResult_body rd (?s\<lparr>reference := r1\<rparr>) n =
          (checkResult_body rd (?s\<lparr>reference := r2\<rparr>) n)\<lparr>reference := r1\<rparr>"
    using Suc.prems by (intro checkResult_body_reference_cong) simp
  with Suc show ?case by (simp add: loop_prefix_Suc ref)
qed

lemma js_get_take: "k < n \<Longrightarrow> js_get (take n xs) k = js_get xs k"
  by (simp add: js_get_def)

lemma spec_noisePower_sample_diffs:
  "spec_noisePower (sample_diffs rd ref) = (\<Sum>k<length rd. sample_diff rd ref k * sample_diff rd ref k)"
  by (simp add: sample_diffs_def spec_noisePower_upt)

lemma spec_signalPower_all:
  "spec_signalPower (map num_val xs) = (\<Sum>k<length xs. num_val (xs ! k) * num_val (xs ! k))"
  using spec_signalPower_take[of "length xs" xs] by simp

lemmas checkResult_eval =
  checkResult_fst checkResult_snd checkResult_loop_def checkResult_start_def checkResult_body_def
  Let_def js_get_def osc_module_init_def upt_rec js_num_simps osc_module.defs check_state.defs
  calculateSNR_def should_def

text \<open>
  C6.  A reference channel shorter than the rendered one raises no error: the first
  read past its end is \<open>undefined\<close>, the difference and both power accumulators
  become \<open>NaN\<close>, the SNR is \<open>NaN\<close>, and the SNR assertion fails like a metric
  failure, whatever the data and thresholds.
\<close>

theorem checkResult_short_reference:
  assumes "length (reference st) < length (channel0 b)"
  shows "noisePower (fst (checkResult dl b ty st)) = NaN \<and>
         signalPower (fst (checkResult dl b ty st)) = NaN \<and>
         hd (snd (checkResult dl b ty st)) =
           Assertion SNRLabel NaN GreaterThanOrEqualTo (thresholdSNR st) False \<and>
         \<not> all_passed (snd (checkResult dl b ty st))"
  using loop_prefix_NaN[OF assms, of "channel0 b"]
  by (simp add: checkResult_fst checkResult_snd checkResult_loop_prefix should_def calculateSNR_NaN
      js_NaN_le all_passed_def)

theorem checkResult_short_reference_witness:
  "noisePower (fst (checkResult (\<lambda>_ _. False)
      \<lparr>channel0 = [Num 1, Num 2], other_channels = [], buffer_sampleRate = 44100\<rparr> ''sine''
      (osc_module_init\<lparr>reference := [Num 1]\<rparr>))) = NaN \<and>
   signalPower (fst (checkResult (\<lambda>_ _. False)
      \<lparr>channel0 = [Num 1, Num 2], other_channels = [], buffer_sampleRate = 44100\<rparr> ''sine''
      (osc_module_init\<lparr>reference := [Num 1]\<rparr>))) = NaN \<and>
   hd (snd (checkResult (\<lambda>_ _. False)
      \<lparr>channel0 = [Num 1, Num 2], other_channels = [], buffer_sampleRate = 44100\<rparr> ''sine''
      (osc_module_init\<lparr>reference := [Num 1]\<rparr>))) =
     Assertion SNRLabel NaN GreaterThanOrEqualTo (Num 10000) False \<and>
   \<not> all_passed (snd (checkResult (\<lambda>_ _. False)
      \<lparr>channel0 = [Num 1, Num 2], other_channels = [], buffer_sampleRate = 44100\<rparr> ''sine''
      (osc_module_init\<lparr>reference := [Num 1]\<rparr>)))"
  using checkResult_short_reference[where st = "osc_module_init\<lparr>reference := [Num 1]\<rparr>"
      and b = "\<lparr>channel0 = [Num 1, Num 2], other_channels = [], buffer_sampleRate = 44100\<rparr>"
      and dl = "\<lambda>_ _. False" and ty = "''sine''"]
  by (simp add: osc_module_init_def)

text \<open>
  C7.  Once the module-level noise accumulator is \<open>NaN\<close> it stays \<open>NaN\<close>: every
  later call of \<open>checkResult\<close>, on any buffers, fails its SNR assertion.
\<close>

theorem checkResult_NaN_persists:
  assumes "noisePower st = NaN"
  shows "noisePower (fst (checkResult dl b ty st)) = NaN \<and>
         hd (snd (checkResult dl b ty st)) =
           Assertion SNRLabel NaN GreaterThanOrEqualTo (thresholdSNR st) False \<and>
         \<not> all_passed (snd (checkResult dl b ty st))"
  using loop_prefix_noise_NaN[OF assms, of "channel0 b" "length (channel0 b)"]
  by (simp add: checkResult_fst checkResult_snd checkResult_loop_prefix should_def calculateSNR_NaN
      js_NaN_le all_passed_def)

theorem checkResult_NaN_persists_witness:
  "noisePower (fst (checkResult (\<lambda>_ _. False)
      \<lparr>channel0 = [Num 1], other_channels = [], buffer_sampleRate = 44100\<rparr> ''sine''
      (osc_module_init\<lparr>reference := [Num 1], noisePower := NaN\<rparr>))) = NaN \<and>
   \<not> all_passed (snd (checkResult (\<lambda>_ _. False)
      \<lparr>channel0 = [Num 1], other_channels = [], buffer_sampleRate = 44100\<rparr> ''sine''
      (osc_module_init\<lparr>reference := [Num 1], noisePower := NaN\<rparr>)))"
  using checkResult_NaN_persists[where st = "osc_module_init\<lparr>reference := [Num 1], noisePower := NaN\<rparr>"
      and b = "\<lparr>channel0 = [Num 1], other_channels = [], buffer_sampleRate = 44100\<rparr>"
      and dl = "\<lambda>_ _. False" and ty = "''sine''"]
  by simp

text \<open>
  C8.  The power accumulators are module variables that \<open>checkResult\<close> never resets:
  after a first comparison on fresh accumulators and a second one on a new reference,
  the second call's powers, and the SNR it asserts, are the sums over both comparisons,
  not those of the second comparison alone.
\<close>

theorem checkResult_accumulates:
  assumes "all_finite (channel0 buf_a)" "all_finite ref_a" "length (channel0 buf_a) = length ref_a"
    and "all_finite (channel0 buf_b)" "all_finite ref_b" "length (channel0 buf_b) = length ref_b"
    and "noisePower st = Num 0" "signalPower st = Num 0"
  shows "let st1 = fst (checkResult dl buf_a ty_a (st\<lparr>reference := ref_a\<rparr>));
             r2 = checkResult dl buf_b ty_b (st1\<lparr>reference := ref_b\<rparr>)
         in signalPower (fst r2) =
              Num (spec_signalPower (map num_val ref_a) + spec_signalPower (map num_val ref_b)) \<and>
            noisePower (fst r2) =
              Num (spec_noisePower (sample_diffs (channel0 buf_a) ref_a) +
                   spec_noisePower (sample_diffs (channel0 buf_b) ref_b)) \<and>
            hd (snd r2) =
              should (calculateSNR
                  (Num (spec_signalPower (map num_val ref_a) + spec_signalPower (map num_val ref_b)))
                  (Num (spec_noisePower (sample_diffs (channel0 buf_a) ref_a) +
                        spec_noisePower (sample_diffs (channel0 buf_b) ref_b))))
                SNRLabel GreaterThanOrEqualTo (thresholdSNR st)"
proof -
  let ?st1 = "fst (checkResult dl buf_a ty_a (st\<lparr>reference := ref_a\<rparr>))"
  have p1: "noisePower ?st1 = Num (0 + spec_noisePower (sample_diffs (channel0 buf_a) ref_a))"
           "signalPower ?st1 = Num (0 + spec_signalPower (map num_val ref_a))"
    using checkResult_loop_powers[of "channel0 buf_a" "st\<lparr>reference := ref_a\<rparr>" 0 0] assms(1-3,7,8)
    by (simp_all add: checkResult_fst spec_noisePower_sample_diffs spec_signalPower_all)
  have "noisePower (checkResult_loop (channel0 buf_b) (?st1\<lparr>reference := ref_b\<rparr>)) =
          Num (spec_noisePower (sample_diffs (channel0 buf_a) ref_a) +
               spec_noisePower (sample_diffs (channel0 buf_b) ref_b)) \<and>
        signalPower (checkResult_loop (channel0 buf_b) (?st1\<lparr>reference := ref_b\<rparr>)) =
          Num (spec_signalPower (map num_val ref_a) + spec_signalPower (map num_val ref_b))"
    using checkResult_loop_powers[of "channel0 buf_b" "?st1\<lparr>reference := ref_b\<rparr>"] assms(4-6) p1
    by (simp add: spec_noisePower_sample_diffs spec_signalPower_all)
  moreover have "thresholdSNR ?st1 = thresholdSNR st"
    by (simp add: checkResult_fst)
  ultimately show ?thesis
    by (simp add: Let_def checkResult_fst checkResult_snd should_def)
qed

theorem checkResult_accumulates_witness:
  "hd (snd (checkResult (\<lambda>_ _. False)
      \<lparr>channel0 = [Num 1], other_channels = [], buffer_sampleRate = 44100\<rparr> ''sine''
      (osc_module_init\<lparr>reference := [Num 1]\<rparr>))) =
     Assertion SNRLabel PosInf GreaterThanOrEqualTo (Num 10000) True \<and>
   (let st1 = fst (checkResult (\<lambda>_ _. False)
          \<lparr>channel0 = [Num 1], other_channels = [], buffer_sampleRate = 44100\<rparr> ''sine''
          (osc_module_init\<lparr>reference := [Num 0]\<rparr>));
        r2 = checkResult (\<lambda>_ _. False)
          \<lparr>channel0 = [Num 1], other_channels = [], buffer_sampleRate = 44100\<rparr> ''sine''
          (st1\<lparr>reference := [Num 1]\<rparr>)
    in signalPower (fst r2) = Num 1 \<and> noisePower (fst r2) = Num 1 \<and>
       hd (snd r2) = Assertion SNRLabel (Num 0) GreaterThanOrEqualTo (Num 10000) False)"
proof -
  have fresh: "hd (snd (checkResult (\<lambda>_ _. False)
      \<lparr>channel0 = [Num 1], other_channels = [], buffer_sampleRate = 44100\<rparr> ''sine''
      (osc_module_init\<lparr>reference := [Num 1]\<rparr>))) =
     Assertion SNRLabel PosInf GreaterThanOrEqualTo (Num 10000) True"
    by (simp add: checkResult_eval)
  have ds: "sample_diffs [Num 1] [Num 0] = [1]" "sample_diffs [Num 1] [Num 1] = [0]"
    by (simp_all add: sample_diffs_def sample_diff_def)
  show ?thesis
    using fresh checkResult_accumulates[where st = osc_module_init and ref_a = "[Num 0]"
        and ref_b = "[Num 1]"
        and buf_a = "\<lparr>channel0 = [Num 1], other_channels = [], buffer_sampleRate = 44100\<rparr>"
        and buf_b = "\<lparr>channel0 = [Num 1], other_channels = [], buffer_sampleRate = 44100\<rparr>"
        and dl = "\<lambda>_ _. False" and ty_a = "''sine''" and ty_b = "''sine''"]
    by (simp add: Let_def all_finite_def osc_module_init_def ds spec_noisePower_def
        spec_signalPower_def calculateSNR_def should_def js_num_simps)
qed

text \<open>
  C9.  A reference channel longer than the rendered one: its extra samples are never
  read; the result is that of the reference cut to the rendered length.
\<close>

theorem checkResult_long_reference:
  assumes "length (channel0 b) \<le> length ref"
  shows "fst (checkResult dl b ty (st\<lparr>reference := ref\<rparr>)) =
           (fst (checkResult dl b ty (st\<lparr>reference := take (length (channel0 b)) ref\<rparr>)))
             \<lparr>reference := ref\<rparr> \<and>
         snd (checkResult dl b ty (st\<lparr>reference := ref\<rparr>)) =
           snd (checkResult dl b ty (st\<lparr>reference := take (length (channel0 b)) ref\<rparr>))"
proof -
  let ?n = "length (channel0 b)"
  have "loop_prefix (channel0 b) (st\<lparr>reference := ref\<rparr>) ?n =
          (loop_prefix (channel0 b) (st\<lparr>reference := take ?n ref\<rparr>) ?n)\<lparr>reference := ref\<rparr>"
    by (rule loop_prefix_reference_cong) (simp add: js_get_take)
  then show ?thesis
    by (simp add: checkResult_fst checkResult_snd checkResult_loop_prefix)
qed

theorem checkResult_long_reference_witness:
  "snd (checkResult (\<lambda>_ _. False)
      \<lparr>channel0 = [Num 1], other_channels = [], buffer_sampleRate = 44100\<rparr> ''sine''
      (osc_module_init\<lparr>reference := [Num 1, Num 5]\<rparr>)) =
   snd (checkResult (\<lambda>_ _. False)
      \<lparr>channel0 = [Num 1], other_channels = [], buffer_sampleRate = 44100\<rparr> ''sine''
      (osc_module_init\<lparr>reference := [Num 1]\<rparr>))"
  using checkResult_long_reference[where st = osc_module_init and ref = "[Num 1, Num 5]"
      and b = "\<lparr>channel0 = [Num 1], other_channels = [], buffer_sampleRate = 44100\<rparr>"
      and dl = "\<lambda>_ _. False" and ty = "''sine''"]
  by simp

text \<open>
  C10.  \<open>calculateSNR\<close> is strictly decreasing in the noise power for a fixed positive
  signal power.
\<close>

theorem calculateSNR_decreasing:
  assumes "0 < s" "0 < n1" "n1 < n2"
  shows "calculateSNR (Num s) (Num n2) < calculateSNR (Num s) (Num n1)"
  using js_log10_div_mono[OF assms] by (simp add: calculateSNR_def)

theorem calculateSNR_decreasing_witness:
  "calculateSNR (Num 4) (Num 2) < calculateSNR (Num 4) (Num 1)"
  using calculateSNR_decreasing[of 4 1 2] by simp

text \<open>
  C11.  The thresholds are inclusive: a metric exactly equal to its threshold passes
  (\<open>>=\<close> and \<open><=\<close>), although the source's comments say the SNR must be greater
  than, and the difference and count less than, their thresholds.
\<close>

theorem checkResult_thresholds_inclusive:
  assumes "calculateSNR (signalPower (checkResult_loop (channel0 b) st))
             (noisePower (checkResult_loop (channel0 b) st)) = thresholdSNR st"
    and "maxError (checkResult_loop (channel0 b) st) = thresholdDiff st"
    and "Num (real (diffCount (checkResult_loop (channel0 b) st))) = thresholdDiffCount st"
    and "thresholdSNR st \<noteq> NaN" "thresholdDiff st \<noteq> NaN"
  shows "all_passed (snd (checkResult dl b ty st))"
  using assms(1,2,4,5) assms(3)[symmetric]
  by (simp add: checkResult_snd all_passed_def less_eq_jsnum_def)

theorem checkResult_thresholds_inclusive_witness:
  "all_passed (snd (checkResult (\<lambda>_ _. False)
      \<lparr>channel0 = [Num 1, Num 2], other_channels = [], buffer_sampleRate = 44100\<rparr> ''sine''
      (osc_module_init\<lparr>reference := [Num 1, Num 2], thresholdSNR := PosInf\<rparr>)))"
  by (rule checkResult_thresholds_inclusive) (simp_all add: checkResult_eval)

text \<open>
  C12.  A \<open>NaN\<close> rendered sample is invisible to the maximum error, its position and the
  difference count (every comparison with \<open>NaN\<close> is false); only the noise power
  records it, as \<open>NaN\<close>.
\<close>

theorem checkResult_body_NaN_sample:
  assumes "rd ! k = NaN"
  shows "maxError (checkResult_body rd s k) = maxError s \<and>
         errorPosition (checkResult_body rd s k) = errorPosition s \<and>
         diffCount (checkResult_body rd s k) = diffCount s \<and>
         noisePower (checkResult_body rd s k) = NaN"
proof -
  have "\<not> maxError s < NaN" "\<not> (0::jsnum) < NaN"
    by (cases "maxError s"; simp add: js_zero)+
  then show ?thesis
    using assms by (simp add: checkResult_body_fields js_num_simps)
qed

theorem checkResult_body_NaN_sample_witness:
  "maxError (checkResult_body [NaN] (checkResult_start osc_module_init) 0) = Num (-1) \<and>
   errorPosition (checkResult_body [NaN] (checkResult_start osc_module_init) 0) = -1 \<and>
   diffCount (checkResult_body [NaN] (checkResult_start osc_module_init) 0) = 0 \<and>
   noisePower (checkResult_body [NaN] (checkResult_start osc_module_init) 0) = NaN"
  using checkResult_body_NaN_sample[of "[NaN]" 0 "checkResult_start osc_module_init"]
  by (simp add: checkResult_start_fields)

text \<open>
  C13.  An empty rendered channel raises no error: the state is unchanged, the maximum
  difference reported is the sentinel \<open>-1\<close>, the count 0, and the SNR is that of the
  accumulators as they stand.
\<close>

theorem checkResult_empty:
  "fst (checkResult dl (b\<lparr>channel0 := []\<rparr>) ty st) = st \<and>
   take 3 (snd (checkResult dl (b\<lparr>channel0 := []\<rparr>) ty st)) =
     [should (calculateSNR (signalPower st) (noisePower st)) SNRLabel GreaterThanOrEqualTo
        (thresholdSNR st),
      should (Num (-1)) MaxDiffLabel LessThanOrEqualTo (thresholdDiff st),
      should (Num 0) (DiffCountLabel 0) LessThanOrEqualTo (thresholdDiffCount st)]"
  by (simp add: checkResult_fst checkResult_snd checkResult_loop_def checkResult_start_fields
      should_def)

subsection \<open>Well-formed loop state on every input\<close>

lemma js_abs_above:
  "m < \<bar>d :: jsnum\<bar> \<Longrightarrow> Num 0 \<le> \<bar>d\<bar>"
  by (cases d; cases m) (simp_all add: less_eq_jsnum_def)

lemma check_state_wf_step:
  assumes "check_state_wf n s"
  shows "check_state_wf (Suc n) (checkResult_body rd s n)"
  using assms js_abs_above[of "maxError s" "rd ! n - js_get (reference s) n"]
  unfolding check_state_wf_def checkResult_body_fields by auto

lemma loop_prefix_wf: "check_state_wf n (loop_prefix rd st n)"
proof (induction n)
  case 0
  then show ?case
    by (simp add: loop_prefix_def check_state_wf_def checkResult_start_fields)
next
  case (Suc n)
  then show ?case by (simp add: loop_prefix_Suc check_state_wf_step)
qed

text \<open>
  C25.  Whatever the buffers and the module state (short references, \<open>NaN\<close> or
  infinite samples included), the loop ends in a well-formed state: either no error was
  recorded and \<open>maxError\<close> and \<open>errorPosition\<close> are both the sentinel \<open>-1\<close>, or
  \<open>errorPosition\<close> is an index of the rendered data and \<open>maxError\<close> a non-negative
  number or \<open>+\<infinity>\<close>; \<open>diffCount\<close> is at most the number of samples.
\<close>

theorem checkResult_loop_wf:
  "check_state_wf (length rd) (checkResult_loop rd st)"
  using loop_prefix_wf[of "length rd" rd st] by (simp add: checkResult_loop_def loop_prefix_def)

end
