(* ===== verification/Sweep.thy ===== *)
theory Sweep
  imports OscConfig
begin

text \<open>
  \<open>generateExponentialOscillatorSweep\<close> (oscillator-testing.js, lines 61--84) builds
  a small Web Audio graph on the rendering context: an oscillator (a named waveform,
  or for \<open>"custom"\<close> a periodic wave of three cosine coefficients), a gain of
  \<open>0.5\<close>, the connections oscillator \<open>\<rightarrow>\<close> gain \<open>\<rightarrow>\<close> destination, a start at
  time 0, and two automation events on the oscillator frequency.  The model is the
  description of that graph, a record; the rendering engine that consumes it is
  external.  How an \<open>AudioParam\<close> evaluates its automation events is fixed by the
  Web Audio specification, not by this repository's sources: \<open>param_value\<close> models
  it from the specification, for the two event kinds the program uses.
\<close>

datatype osc_source =
  PeriodicWaveSource "real list" "real list"
  | OscType string

datatype audio_node = OscillatorNode | GainNode | Destination

datatype param_event =
  SetValueAtTime real real
  | ExponentialRampToValueAtTime real real

record sweep_graph =
  osc_source :: osc_source
  gain_value :: real
  connections :: "(audio_node \<times> audio_node) list"
  osc_start :: real
  frequency_events :: "param_event list"

text \<open>The frequency is first set with the literal \<open>10\<close>, not with \<open>lowFrequency\<close>.\<close>

definition generateExponentialOscillatorSweep :: "string \<Rightarrow> sweep_graph" where
  "generateExponentialOscillatorSweep oscillatorType =
     \<lparr>osc_source =
        (if oscillatorType = ''custom'' then PeriodicWaveSource [0, 1, 0.5] [0, 0, 0]
         else OscType oscillatorType),
      gain_value = 0.5,
      connections = [(OscillatorNode, GainNode), (GainNode, Destination)],
      osc_start = 0,
      frequency_events =
        [SetValueAtTime 10 0, ExponentialRampToValueAtTime highFrequency lengthInSeconds]\<rparr>"

subsection \<open>Automation of an AudioParam (Web Audio specification)\<close>

text \<open>
  An exponential ramp from value \<open>v0\<close> at time \<open>t0\<close> to \<open>v1\<close> at \<open>t1\<close> has
  value \<open>v0 * (v1 / v0) ^ ((t - t0) / (t1 - t0))\<close>; it holds \<open>v0\<close> when \<open>v0\<close> is
  zero or the two values have opposite signs.
\<close>

definition exp_ramp_value :: "real \<times> real \<Rightarrow> real \<times> real \<Rightarrow> real \<Rightarrow> real" where
  "exp_ramp_value prev nxt t =
     (let (t0, v0) = prev; (t1, v1) = nxt in
      if v0 = 0 \<or> v0 * v1 < 0 then v0 else v0 * (v1 / v0) powr ((t - t0) / (t1 - t0)))"

text \<open>
  The value at time \<open>t\<close> of a parameter whose events are listed in time order: the
  pair \<open>prev\<close> is the time and value of the last event before the ones still to scan
  (initially time 0 and the parameter's default value).  A set event holds the previous
  value until its time; a ramp interpolates from the previous event up to its time.
\<close>

fun param_value_from :: "real \<times> real \<Rightarrow> param_event list \<Rightarrow> real \<Rightarrow> real" where
  "param_value_from prev [] t = snd prev"
| "param_value_from prev (SetValueAtTime v te # es) t =
     (if t < te then snd prev else param_value_from (te, v) es t)"
| "param_value_from prev (ExponentialRampToValueAtTime v te # es) t =
     (if t < te then exp_ramp_value prev (te, v) t else param_value_from (te, v) es t)"

text \<open>The default frequency of an \<open>OscillatorNode\<close> is 440 Hz.\<close>

definition oscillator_frequency :: "sweep_graph \<Rightarrow> real \<Rightarrow> real" where
  "oscillator_frequency g t = param_value_from (0, 440) (frequency_events g) t"

subsection \<open>The sweep's frequency in closed form\<close>

lemma sweep_frequency_events:
  "frequency_events (generateExponentialOscillatorSweep ty) =
     [SetValueAtTime 10 0, ExponentialRampToValueAtTime 24050 4]"
  by (simp add: generateExponentialOscillatorSweep_def osc_constants_eval)

lemma sweep_frequency_closed_form:
  assumes "0 \<le> t"
  shows "oscillator_frequency (generateExponentialOscillatorSweep ty) t =
           (if t < 4 then 10 * 2405 powr (t / 4) else 24050)"
  using assms
  by (simp add: oscillator_frequency_def sweep_frequency_events exp_ramp_value_def)

subsection \<open>Properties of the sweep\<close>

lemma sweep_ln_frequency:
  assumes "0 \<le> t" "t \<le> 4"
  shows "ln (oscillator_frequency (generateExponentialOscillatorSweep ty) t) = ln 10 + t / 4 * ln 2405"
proof (cases "t < 4")
  case True
  then show ?thesis using assms
    by (simp add: sweep_frequency_closed_form ln_mult ln_powr)
next
  case False
  with assms have "t = 4" by simp
  moreover have "ln (24050::real) = ln 10 + ln 2405"
    using ln_mult[of 10 2405] by simp
  ultimately show ?thesis
    by (simp add: sweep_frequency_closed_form)
qed

lemma sweep_frequency_pos:
  "0 \<le> t \<Longrightarrow> 0 < oscillator_frequency (generateExponentialOscillatorSweep ty) t"
  by (simp add: sweep_frequency_closed_form)

text \<open>
  C14.  The defining property of the sweep: between time 0 and \<open>lengthInSeconds\<close> the
  oscillator frequency is linear in log-frequency, from \<open>lowFrequency\<close> to
  \<open>highFrequency\<close>, whatever the oscillator type.
\<close>

theorem sweep_log_linear:
  assumes "0 \<le> t" "t \<le> lengthInSeconds"
  shows "ln (oscillator_frequency (generateExponentialOscillatorSweep ty) t) =
           ln lowFrequency + t / lengthInSeconds * ln (highFrequency / lowFrequency)"
proof -
  have "ln (highFrequency / lowFrequency) = ln 2405"
    by (simp add: osc_constants_eval)
  then show ?thesis
    using sweep_ln_frequency[of t ty] assms by (simp add: osc_constants_eval)
qed

theorem sweep_log_linear_witness:
  "ln (oscillator_frequency (generateExponentialOscillatorSweep ''sine'') 2) =
     ln lowFrequency + 2 / lengthInSeconds * ln (highFrequency / lowFrequency)"
  using sweep_log_linear[of 2 "''sine''"] by (simp add: osc_constants_eval)

text \<open>
  C15.  The sweep's frequency strictly increases over the ramp.
\<close>

theorem sweep_strictly_increasing:
  assumes "0 \<le> s" "s < t" "t \<le> lengthInSeconds"
  shows "oscillator_frequency (generateExponentialOscillatorSweep ty) s <
           oscillator_frequency (generateExponentialOscillatorSweep ty) t"
proof -
  have "ln (oscillator_frequency (generateExponentialOscillatorSweep ty) s) <
        ln (oscillator_frequency (generateExponentialOscillatorSweep ty) t)"
    using assms sweep_ln_frequency[of s ty] sweep_ln_frequency[of t ty]
    by (simp add: osc_constants_eval divide_strict_right_mono)
  then show ?thesis
    using assms sweep_frequency_pos[of s ty] sweep_frequency_pos[of t ty] by simp
qed

theorem sweep_strictly_increasing_witness:
  "oscillator_frequency (generateExponentialOscillatorSweep ''sine'') 1 < oscillator_frequency (generateExponentialOscillatorSweep ''sine'') 2"
  using sweep_strictly_increasing[of 1 2 "''sine''"] by (simp add: osc_constants_eval)

text \<open>
  C16.  The sweep starts at \<open>lowFrequency\<close> (set with the literal 10) at time 0, holds
  \<open>highFrequency\<close> from \<open>lengthInSeconds\<close> on, and before time 0 the frequency is
  the oscillator's default 440 Hz.
\<close>

theorem sweep_endpoints:
  "oscillator_frequency (generateExponentialOscillatorSweep ty) 0 = lowFrequency \<and>
   (\<forall>t\<ge>lengthInSeconds. oscillator_frequency (generateExponentialOscillatorSweep ty) t = highFrequency) \<and>
   (\<forall>t<0. oscillator_frequency (generateExponentialOscillatorSweep ty) t = 440)"
  by (simp add: oscillator_frequency_def sweep_frequency_events exp_ramp_value_def osc_constants_eval)

theorem sweep_endpoints_witness:
  "oscillator_frequency (generateExponentialOscillatorSweep ''sine'') 0 = 10 \<and> oscillator_frequency (generateExponentialOscillatorSweep ''sine'') 5 = 24050 \<and>
   oscillator_frequency (generateExponentialOscillatorSweep ''sine'') (-1) = 440"
  using sweep_endpoints[of "''sine''"] by (simp add: osc_constants_eval)

text \<open>
  C17.  The sweep goes above the Nyquist frequency: it reaches \<open>nyquist\<close> at time
  \<open>4 ln 2205 / ln 2405\<close> (about 3.96 s), strictly inside the ramp, and stays above it
  afterwards.
\<close>

theorem sweep_crosses_nyquist:
  "0 < 4 * ln 2205 / ln (2405::real) \<and> 4 * ln 2205 / ln 2405 < lengthInSeconds \<and>
   oscillator_frequency (generateExponentialOscillatorSweep ty) (4 * ln 2205 / ln 2405) = nyquist \<and>
   (\<forall>t > 4 * ln 2205 / ln 2405.
      nyquist < oscillator_frequency (generateExponentialOscillatorSweep ty) t)"
proof -
  let ?t0 = "4 * ln 2205 / ln (2405::real)"
  have lnpos: "0 < ln (2205::real)" "0 < ln (2405::real)" by simp_all
  have lnlt: "ln (2205::real) < ln 2405" by simp
  have t0: "0 < ?t0" "?t0 < 4"
    using lnpos lnlt by (simp_all add: divide_less_eq)
  have at: "oscillator_frequency (generateExponentialOscillatorSweep ty) ?t0 = 22050"
  proof -
    have "(2405::real) powr (?t0 / 4) = exp (ln 2205 / ln 2405 * ln 2405)"
      by (simp add: powr_def)
    also have "\<dots> = 2205" using lnpos by simp
    finally show ?thesis using t0 by (simp add: sweep_frequency_closed_form)
  qed
  have above: "22050 < oscillator_frequency (generateExponentialOscillatorSweep ty) t" if "?t0 < t" for t
  proof (cases "t \<le> 4")
    case True
    have "ln (22050::real) = ln 10 + ?t0 / 4 * ln 2405"
      using ln_mult[of 10 2205] lnpos by simp
    also have "\<dots> < ln 10 + t / 4 * ln 2405"
      using that lnpos by (simp add: divide_less_eq mult.commute)
    also have "\<dots> = ln (oscillator_frequency (generateExponentialOscillatorSweep ty) t)"
      using sweep_ln_frequency[of t ty] True t0 that by simp
    finally show ?thesis
      using sweep_frequency_pos[of t ty] t0 that by simp
  next
    case False
    then show ?thesis by (simp add: sweep_frequency_closed_form)
  qed
  show ?thesis
    using t0 at above by (simp add: osc_constants_eval)
qed

theorem sweep_crosses_nyquist_witness:
  "oscillator_frequency (generateExponentialOscillatorSweep ''sine'') (4 * ln 2205 / ln 2405) = 22050 \<and>
   22050 < oscillator_frequency (generateExponentialOscillatorSweep ''sine'') 4"
  using sweep_crosses_nyquist[of "''sine''"] by (simp add: osc_constants_eval)

end
