(* ===== verification/Pipeline.thy ===== *)
theory Pipeline
  imports Sweep Comparator_Scenarios
begin

text \<open>
  \<open>loadReferenceAndRunTest\<close> and \<open>runTest\<close> (oscillator-testing.js, lines 91--107
  and 155--157) chain four asynchronous steps with promises: fetch the expected WAV
  file, decode it, store its first channel as the module's \<open>reference\<close>, build the
  sweep and start rendering, then compare the rendered buffer with \<open>checkResult\<close> and
  call \<open>task.done()\<close>.  The chain has no rejection handler: a step that rejects skips
  every later \<open>then\<close> callback, so nothing is compared and \<open>task.done()\<close> is never
  called.

  The external capabilities (the file loader, the decoder, the offline rendering of the
  graph built on the context, and the artifact download) are the fields of the record
  \<open>audio_env\<close>, passed in rather than assumed; each of the first three answers with a
  value or a rejection.  A run returns the module state it leaves behind, the
  assertions it logged, whether \<open>task.done()\<close> was called, and the rejection that
  ended it, if any.
\<close>

datatype js_error = JsError string

record 'b audio_env =
  loadFileFromUrl :: "string \<Rightarrow> js_error + 'b"
  decodeAudioData :: "'b \<Rightarrow> js_error + audio_buffer"
  startRendering :: "sweep_graph \<Rightarrow> js_error + audio_buffer"
  downloadAudioBuffer :: "audio_buffer \<Rightarrow> string \<Rightarrow> bool"

record test_outcome =
  out_state :: osc_module
  out_reports :: "report list"
  task_done :: bool
  rejection :: "js_error option"

definition reference_url :: "string \<Rightarrow> string" where
  "reference_url oscType = ''../Oscillator/oscillator-'' @ oscType @ ''-expected.wav''"

definition rejected_at :: "osc_module \<Rightarrow> js_error \<Rightarrow> test_outcome" where
  "rejected_at st e = \<lparr>out_state = st, out_reports = [], task_done = False, rejection = Some e\<rparr>"

definition loadReferenceAndRunTest ::
  "'b audio_env \<Rightarrow> string \<Rightarrow> osc_module \<Rightarrow> test_outcome" where
  "loadReferenceAndRunTest env oscType st =
     (case loadFileFromUrl env (reference_url oscType) of
        Inl e \<Rightarrow> rejected_at st e
      | Inr response \<Rightarrow>
          (case decodeAudioData env response of
             Inl e \<Rightarrow> rejected_at st e
           | Inr audioBuffer \<Rightarrow>
               (let st = st\<lparr>reference := getChannelData0 audioBuffer\<rparr>;
                    graph = generateExponentialOscillatorSweep oscType
                in case startRendering env graph of
                     Inl e \<Rightarrow> rejected_at st e
                   | Inr resultBuffer \<Rightarrow>
                       (let (st, reports) =
                              checkResult (downloadAudioBuffer env) resultBuffer oscType st
                        in \<lparr>out_state = st, out_reports = reports, task_done = True,
                            rejection = None\<rparr>))))"

text \<open>\<open>runTest\<close> ignores its \<open>description\<close> argument.\<close>

definition runTest ::
  "'b audio_env \<Rightarrow> string \<Rightarrow> string \<Rightarrow> osc_module \<Rightarrow> test_outcome" where
  "runTest env oscType description st = loadReferenceAndRunTest env oscType st"

text \<open>
  Several tests run in one page share the module: each starts from the state the
  previous one left, with its own rendering context.
\<close>

fun run_tests ::
  "('b audio_env \<times> string) list \<Rightarrow> osc_module \<Rightarrow> osc_module \<times> test_outcome list" where
  "run_tests [] st = (st, [])"
| "run_tests ((env, oscType) # ts) st =
     (let outcome = runTest env oscType '''' st;
          (st', outcomes) = run_tests ts (out_state outcome)
      in (st', outcome # outcomes))"

text \<open>
  Two environments used in the examples: one whose loader, decoder and renderer all
  succeed with the given buffers, and one whose loader rejects.
\<close>

definition succeeding_env :: "audio_buffer \<Rightarrow> audio_buffer \<Rightarrow> unit audio_env" where
  "succeeding_env decoded rendered =
     \<lparr>loadFileFromUrl = \<lambda>_. Inr (), decodeAudioData = \<lambda>_. Inr decoded,
      startRendering = \<lambda>_. Inr rendered, downloadAudioBuffer = \<lambda>_ _. False\<rparr>"

definition failing_load_env :: "js_error \<Rightarrow> unit audio_env" where
  "failing_load_env e =
     \<lparr>loadFileFromUrl = \<lambda>_. Inl e, decodeAudioData = \<lambda>_. Inr (\<lparr>channel0 = [], other_channels = [], buffer_sampleRate = 44100\<rparr>),
      startRendering = \<lambda>_. Inr (\<lparr>channel0 = [], other_channels = [], buffer_sampleRate = 44100\<rparr>),
      downloadAudioBuffer = \<lambda>_ _. False\<rparr>"

subsection \<open>Runs, rejections and sequences of tests\<close>

lemma runTest_cases:
  "runTest env ty d st =
     (case loadFileFromUrl env (reference_url ty) of
        Inl e \<Rightarrow> rejected_at st e
      | Inr response \<Rightarrow>
          (case decodeAudioData env response of
             Inl e \<Rightarrow> rejected_at st e
           | Inr ab \<Rightarrow>
               (case startRendering env (generateExponentialOscillatorSweep ty) of
                  Inl e \<Rightarrow> rejected_at (st\<lparr>reference := channel0 ab\<rparr>) e
                | Inr rb \<Rightarrow>
                    \<lparr>out_state = fst (checkResult (downloadAudioBuffer env) rb ty
                                        (st\<lparr>reference := channel0 ab\<rparr>)),
                     out_reports = snd (checkResult (downloadAudioBuffer env) rb ty
                                        (st\<lparr>reference := channel0 ab\<rparr>)),
                     task_done = True, rejection = None\<rparr>)))"
  by (simp add: runTest_def loadReferenceAndRunTest_def getChannelData0_def Let_def
      split: sum.split prod.split)

lemma runTest_state_cases:
  "out_state (runTest env ty d st) = st \<or>
   (\<exists>ab. out_state (runTest env ty d st) = st\<lparr>reference := ab\<rparr>) \<or>
   (\<exists>ab rb. out_state (runTest env ty d st) =
       fst (checkResult (downloadAudioBuffer env) rb ty (st\<lparr>reference := ab\<rparr>)))"
  by (simp add: runTest_cases rejected_at_def split: sum.split) blast

lemma checkResult_fst_thresholds:
  "thresholdSNR (fst (checkResult dl b ty st)) = thresholdSNR st \<and>
   thresholdDiff (fst (checkResult dl b ty st)) = thresholdDiff st \<and>
   thresholdDiffCount (fst (checkResult dl b ty st)) = thresholdDiffCount st"
  by (simp add: checkResult_fst)

lemma runTest_thresholds:
  "thresholdSNR (out_state (runTest env ty d st)) = thresholdSNR st \<and>
   thresholdDiff (out_state (runTest env ty d st)) = thresholdDiff st \<and>
   thresholdDiffCount (out_state (runTest env ty d st)) = thresholdDiffCount st"
  using runTest_state_cases[of env ty d st] checkResult_fst_thresholds by auto

lemma run_tests_Cons_unfold:
  "run_tests ((env, ty) # ts) st =
     (fst (run_tests ts (out_state (runTest env ty '''' st))),
      runTest env ty '''' st # snd (run_tests ts (out_state (runTest env ty '''' st))))"
  by (simp add: Let_def case_prod_unfold)

lemma checkResult_NaN_noise:
  "noisePower st = NaN \<Longrightarrow>
     noisePower (fst (checkResult dl b ty st)) = NaN \<and> \<not> all_passed (snd (checkResult dl b ty st))"
  using loop_prefix_noise_NaN[of st "channel0 b" "length (channel0 b)"]
  by (simp add: checkResult_fst checkResult_snd checkResult_loop_prefix calculateSNR_NaN js_NaN_le
      all_passed_def)

lemma runTest_NaN:
  "noisePower st = NaN \<Longrightarrow>
     noisePower (out_state (runTest env ty d st)) = NaN \<and>
     (task_done (runTest env ty d st) \<longrightarrow> \<not> all_passed (out_reports (runTest env ty d st)))"
  using checkResult_NaN_noise[of "st\<lparr>reference := _\<rparr>"]
  by (simp add: runTest_cases rejected_at_def split: sum.split)

text \<open>
  C18.  A rejection at any step ends the run with no comparison, no assertion and no
  call of \<open>task.done()\<close>: the rejection is left unhandled.  A rejected load or decode
  leaves the module state as it was; a rejected rendering leaves the new reference
  stored.  The task completes exactly when no step rejected.
\<close>

theorem runTest_rejections:
  "(loadFileFromUrl env (reference_url ty) = Inl e \<longrightarrow>
      runTest env ty d st = rejected_at st e) \<and>
   (loadFileFromUrl env (reference_url ty) = Inr response \<longrightarrow>
    decodeAudioData env response = Inl e \<longrightarrow>
      runTest env ty d st = rejected_at st e) \<and>
   (loadFileFromUrl env (reference_url ty) = Inr response \<longrightarrow>
    decodeAudioData env response = Inr ab \<longrightarrow>
    startRendering env (generateExponentialOscillatorSweep ty) = Inl e \<longrightarrow>
      runTest env ty d st = rejected_at (st\<lparr>reference := channel0 ab\<rparr>) e) \<and>
   (task_done (runTest env ty d st) \<longleftrightarrow> rejection (runTest env ty d st) = None) \<and>
   (rejection (runTest env ty d st) \<noteq> None \<longrightarrow> out_reports (runTest env ty d st) = [])"
  by (simp add: runTest_cases rejected_at_def split: sum.split)

theorem runTest_rejections_witness:
  "runTest (failing_load_env (JsError ''404'')) ''sine'' '''' osc_module_init =
     rejected_at osc_module_init (JsError ''404'') \<and>
   \<not> task_done (runTest (failing_load_env (JsError ''404'')) ''sine'' '''' osc_module_init)"
  using runTest_rejections[where env = "failing_load_env (JsError ''404'')" and ty = "''sine''"
      and e = "JsError ''404''" and d = "''''" and st = osc_module_init]
  by (simp add: rejected_at_def failing_load_env_def)

text \<open>
  C19.  No sequence of runs in a page changes the thresholds: only \<open>setThresholds\<close>
  writes them.
\<close>

theorem run_tests_thresholds:
  "thresholdSNR (fst (run_tests ts st)) = thresholdSNR st \<and>
   thresholdDiff (fst (run_tests ts st)) = thresholdDiff st \<and>
   thresholdDiffCount (fst (run_tests ts st)) = thresholdDiffCount st"
proof (induction ts arbitrary: st)
  case Nil
  then show ?case by simp
next
  case (Cons t ts)
  obtain env ty where t: "t = (env, ty)" by fastforce
  show ?case
    using Cons.IH[of "out_state (runTest env ty '''' st)"] runTest_thresholds[of env ty "''''" st]
    by (simp add: t run_tests_Cons_unfold del: run_tests.simps(2))
qed

text \<open>
  C20.  In a page whose noise accumulator has become \<open>NaN\<close>, it stays \<open>NaN\<close> through any
  sequence of later runs, and every later run that completes fails its assertions.
\<close>

theorem run_tests_NaN_poisoned:
  assumes "noisePower st = NaN"
  shows "noisePower (fst (run_tests ts st)) = NaN \<and>
         (\<forall>outcome \<in> set (snd (run_tests ts st)).
            task_done outcome \<longrightarrow> \<not> all_passed (out_reports outcome))"
  using assms
proof (induction ts arbitrary: st)
  case Nil
  then show ?case by simp
next
  case (Cons t ts)
  obtain env ty where t: "t = (env, ty)" by fastforce
  have now: "noisePower (out_state (runTest env ty '''' st)) = NaN"
    "task_done (runTest env ty '''' st) \<longrightarrow> \<not> all_passed (out_reports (runTest env ty '''' st))"
    using runTest_NaN[OF Cons.prems] by blast+
  show ?case
    using Cons.IH[OF now(1)] now(2) by (simp add: t run_tests_Cons_unfold del: run_tests.simps(2))
qed

theorem run_tests_NaN_poisoned_witness:
  "task_done (hd (snd (run_tests [(succeeding_env \<lparr>channel0 = [Num 1], other_channels = [], buffer_sampleRate = 44100\<rparr> \<lparr>channel0 = [Num 1], other_channels = [], buffer_sampleRate = 44100\<rparr>, ''sine'')]
       (osc_module_init\<lparr>noisePower := NaN\<rparr>)))) \<and>
   \<not> all_passed (out_reports (hd (snd (run_tests [(succeeding_env \<lparr>channel0 = [Num 1], other_channels = [], buffer_sampleRate = 44100\<rparr> \<lparr>channel0 = [Num 1], other_channels = [], buffer_sampleRate = 44100\<rparr>, ''sine'')]
       (osc_module_init\<lparr>noisePower := NaN\<rparr>)))))"
proof -
  have completed: "task_done (hd (snd (run_tests [(succeeding_env \<lparr>channel0 = [Num 1], other_channels = [], buffer_sampleRate = 44100\<rparr> \<lparr>channel0 = [Num 1], other_channels = [], buffer_sampleRate = 44100\<rparr>, ''sine'')]
       (osc_module_init\<lparr>noisePower := NaN\<rparr>))))"
    by (simp add: runTest_cases succeeding_env_def)
  show ?thesis
    using completed run_tests_NaN_poisoned[where st = "osc_module_init\<lparr>noisePower := NaN\<rparr>"
        and ts = "[(succeeding_env \<lparr>channel0 = [Num 1], other_channels = [], buffer_sampleRate = 44100\<rparr> \<lparr>channel0 = [Num 1], other_channels = [], buffer_sampleRate = 44100\<rparr>, ''sine'')]"]
    by (simp add: Let_def)
qed

end
