(* ===== verification/Pointers.thy ===== *)
theory Pointers
  imports Prelude
begin

text \<open>
  \<open>src/chrome/browser/resources/settings/device_page/pointers.js\<close> registers the
  Polymer element \<open>settings-pointers\<close>, the settings subpage for mouse and touchpad.
  The registration is data: the tag name and four property declarations (lines
  9--33).  How a Polymer element treats such declarations (a default \<open>value\<close> set
  at creation, \<open>readOnly\<close> properties ignoring writes from outside, \<open>notify\<close>
  properties dispatching \<open><name>-changed\<close> when their value changes) is the
  framework's, not this repository's: \<open>polymer_create\<close> and \<open>polymer_set\<close> model
  it generically over a declaration list.  The element's two methods are
  \<open>getSubsectionClass_\<close> (a pure function of the two device flags) and
  \<open>onLearnMoreLinkActivated_\<close> (here \<open>getSubsectionClass\<close> and
  \<open>onLearnMoreLinkActivated\<close>: a name may not end in an underscore), which hands its event to the singleton
  \<open>settings.DevicePageBrowserProxyImpl\<close>; the proxy lives outside this repository and
  is modelled by the list of events it has been handed, in order.
\<close>

subsection \<open>JavaScript values held by the element's properties\<close>

text \<open>
  The values the element's properties can hold: \<open>undefined\<close>, booleans, arrays of
  numbers (\<open>sensitivityValues_\<close> holds small integers), strings, and objects, whose
  identity is the type parameter \<open>'p\<close> (two objects are the same object iff equal).
\<close>

datatype 'p jsval = Undefined | JBool bool | JNumbers "int list" | JString string | JObject 'p

fun truthy :: "'p jsval \<Rightarrow> bool" where
  "truthy Undefined = False"
| "truthy (JBool b) = b"
| "truthy (JNumbers _) = True"
| "truthy (JString s) = (s \<noteq> [])"
| "truthy (JObject _) = True"

text \<open>\<open>a && b\<close> yields \<open>a\<close> when \<open>a\<close> is falsy and \<open>b\<close> otherwise.\<close>

definition js_and :: "'p jsval \<Rightarrow> 'p jsval \<Rightarrow> 'p jsval" where
  "js_and a b = (if truthy a then b else a)"

subsection \<open>The element's registration (lines 9--33)\<close>

datatype prop_type = ObjectType | BooleanType | ArrayType

record 'p prop_decl =
  prop_type :: prop_type
  prop_notify :: bool
  prop_readOnly :: bool
  prop_value :: "'p jsval option"

text \<open>\<open>hasMouse: Boolean\<close> is the shorthand for a declaration giving only the type.\<close>

definition prop_shorthand :: "prop_type \<Rightarrow> 'p prop_decl" where
  "prop_shorthand t = \<lparr>prop_type = t, prop_notify = False, prop_readOnly = False, prop_value = None\<rparr>"

record 'p polymer_element =
  element_is :: string
  element_properties :: "(string \<times> 'p prop_decl) list"

definition settings_pointers :: "'p polymer_element" where
  "settings_pointers =
     \<lparr>element_is = ''settings-pointers'',
      element_properties =
        [(''prefs'', \<lparr>prop_type = ObjectType, prop_notify = True, prop_readOnly = False,
                      prop_value = None\<rparr>),
         (''hasMouse'', prop_shorthand BooleanType),
         (''hasTouchpad'', prop_shorthand BooleanType),
         (''sensitivityValues_'', \<lparr>prop_type = ArrayType, prop_notify = False, prop_readOnly = True,
                                   prop_value = Some (JNumbers [1, 2, 3, 4, 5])\<rparr>)]\<rparr>"

subsection \<open>The element's methods (lines 35--52)\<close>

definition getSubsectionClass :: "'p jsval \<Rightarrow> 'p jsval \<Rightarrow> string" where
  "getSubsectionClass hasMouse hasTouchpad =
     (if truthy (js_and hasMouse hasTouchpad) then ''subsection'' else '''')"

text \<open>
  The state of a page holding one \<open>settings-pointers\<close> instance: the instance's
  properties (an unset property reads \<open>undefined\<close>), the \<open>-changed\<close> events it has
  dispatched (type and new value, in order), and the events handed to the browser
  proxy's \<open>handleLinkEvent\<close>, in order.
\<close>

record ('p, 'e) page_state =
  props :: "string \<Rightarrow> 'p jsval"
  fired :: "(string \<times> 'p jsval) list"
  proxy_calls :: "'e list"

definition onLearnMoreLinkActivated :: "'e \<Rightarrow> ('p, 'e) page_state \<Rightarrow> ('p, 'e) page_state" where
  "onLearnMoreLinkActivated e st = st\<lparr>proxy_calls := proxy_calls st @ [e]\<rparr>"

subsection \<open>Polymer's treatment of the declarations\<close>

text \<open>At creation every declared property with a \<open>value\<close> holds it.\<close>

definition polymer_create :: "'p polymer_element \<Rightarrow> string \<Rightarrow> 'p jsval" where
  "polymer_create el n =
     (case map_of (element_properties el) n of
        Some d \<Rightarrow> (case prop_value d of Some v \<Rightarrow> v | None \<Rightarrow> Undefined)
      | None \<Rightarrow> Undefined)"

text \<open>
  A write from outside the element (a host binding or an assignment): an undeclared
  property is a plain field; a \<open>readOnly\<close> property has no public setter and keeps
  its value; otherwise a changed value is stored and, for a \<open>notify\<close> property,
  announced by a \<open><name>-changed\<close> event carrying the new value.
\<close>

definition polymer_set ::
  "'p polymer_element \<Rightarrow> string \<Rightarrow> 'p jsval \<Rightarrow> ('p, 'e) page_state \<Rightarrow> ('p, 'e) page_state" where
  "polymer_set el n v st =
     (case map_of (element_properties el) n of
        None \<Rightarrow> st\<lparr>props := (props st)(n := v)\<rparr>
      | Some d \<Rightarrow>
          (if prop_readOnly d \<or> props st n = v then st
           else st\<lparr>props := (props st)(n := v),
                   fired := fired st @ (if prop_notify d then [(n @ ''-changed'', v)] else [])\<rparr>))"

subsection \<open>The page as a state machine\<close>

datatype ('p, 'e) pointers_op = HostSet string "'p jsval" | LearnMoreLink 'e

definition pointers_init :: "('p, 'e) page_state" where
  "pointers_init = \<lparr>props = polymer_create settings_pointers, fired = [], proxy_calls = []\<rparr>"

fun pointers_step :: "('p, 'e) pointers_op \<Rightarrow> ('p, 'e) page_state \<Rightarrow> ('p, 'e) page_state" where
  "pointers_step (HostSet n v) st = polymer_set settings_pointers n v st"
| "pointers_step (LearnMoreLink e) st = onLearnMoreLinkActivated e st"

definition pointers_run :: "('p, 'e) pointers_op list \<Rightarrow> ('p, 'e) page_state \<Rightarrow> ('p, 'e) page_state" where
  "pointers_run ops st = foldl (\<lambda>s op. pointers_step op s) st ops"

inductive pointers_reachable :: "('p, 'e) page_state \<Rightarrow> bool" where
  init: "pointers_reachable pointers_init"
| step: "pointers_reachable st \<Longrightarrow> pointers_reachable (pointers_step op st)"

text \<open>Observations: the class the template binds from the two device flags, the
  host's view of \<open>prefs\<close> (the last \<open>prefs-changed\<close> value it received), and the
  link events of a sequence of operations.\<close>

definition subsection_class :: "('p, 'e) page_state \<Rightarrow> string" where
  "subsection_class st = getSubsectionClass (props st ''hasMouse'') (props st ''hasTouchpad'')"

definition host_prefs :: "('p, 'e) page_state \<Rightarrow> 'p jsval" where
  "host_prefs st =
     (let evs = filter (\<lambda>(t, _). t = ''prefs-changed'') (fired st)
      in if evs = [] then Undefined else snd (last evs))"

fun link_events :: "('p, 'e) pointers_op list \<Rightarrow> 'e list" where
  "link_events [] = []"
| "link_events (HostSet _ _ # ops) = link_events ops"
| "link_events (LearnMoreLink e # ops) = e # link_events ops"

fun host_writes :: "('p, 'e) pointers_op list \<Rightarrow> ('p, 'e) pointers_op list" where
  "host_writes [] = []"
| "host_writes (HostSet n v # ops) = HostSet n v # host_writes ops"
| "host_writes (LearnMoreLink _ # ops) = host_writes ops"

text \<open>
  The element's contract, as its users see it: three writable properties and the
  calls handed to the browser proxy.  A write to a declared writable property replaces
  it, a write to anything else is invisible here, and a link activation appends its
  event to the proxy's calls.
\<close>

record ('p, 'e) pointers_abs =
  abs_prefs :: "'p jsval"
  abs_hasMouse :: "'p jsval"
  abs_hasTouchpad :: "'p jsval"
  abs_proxy_calls :: "'e list"

definition pointers_abs_of :: "('p, 'e) page_state \<Rightarrow> ('p, 'e) pointers_abs" where
  "pointers_abs_of st =
     \<lparr>abs_prefs = props st ''prefs'', abs_hasMouse = props st ''hasMouse'',
      abs_hasTouchpad = props st ''hasTouchpad'', abs_proxy_calls = proxy_calls st\<rparr>"

fun pointers_abs_step :: "('p, 'e) pointers_op \<Rightarrow> ('p, 'e) pointers_abs \<Rightarrow> ('p, 'e) pointers_abs" where
  "pointers_abs_step (HostSet n v) a =
     (if n = ''prefs'' then a\<lparr>abs_prefs := v\<rparr>
      else if n = ''hasMouse'' then a\<lparr>abs_hasMouse := v\<rparr>
      else if n = ''hasTouchpad'' then a\<lparr>abs_hasTouchpad := v\<rparr>
      else a)"
| "pointers_abs_step (LearnMoreLink e) a = a\<lparr>abs_proxy_calls := abs_proxy_calls a @ [e]\<rparr>"

subsection \<open>Properties of the element\<close>

lemma settings_pointers_decl:
  "map_of (element_properties settings_pointers) n =
     (if n = ''prefs'' then Some \<lparr>prop_type = ObjectType, prop_notify = True, prop_readOnly = False,
                                  prop_value = None\<rparr>
      else if n = ''hasMouse'' \<or> n = ''hasTouchpad'' then Some (prop_shorthand BooleanType)
      else if n = ''sensitivityValues_'' then
        Some \<lparr>prop_type = ArrayType, prop_notify = False, prop_readOnly = True,
              prop_value = Some (JNumbers [1, 2, 3, 4, 5])\<rparr>
      else None)"
  by (auto simp: settings_pointers_def)

lemma polymer_set_other:
  "m \<noteq> n \<Longrightarrow> props (polymer_set el n v st) m = props st m"
  by (simp add: polymer_set_def split: option.split)

lemma polymer_set_proxy_calls:
  "proxy_calls (polymer_set el n v st) = proxy_calls st"
  by (simp add: polymer_set_def split: option.split)

lemma polymer_set_proxy_update:
  "polymer_set el n v (st\<lparr>proxy_calls := xs\<rparr>) = (polymer_set el n v st)\<lparr>proxy_calls := xs\<rparr>"
  by (simp add: polymer_set_def split: option.split)

lemma pointers_set_sensitivity:
  "polymer_set settings_pointers ''sensitivityValues_'' v st = st"
  by (simp add: polymer_set_def settings_pointers_decl)

lemma pointers_set_fired:
  "fired (polymer_set settings_pointers n v st) =
     (if n = ''prefs'' \<and> props st n \<noteq> v then fired st @ [(''prefs-changed'', v)] else fired st)"
  by (simp add: polymer_set_def settings_pointers_decl prop_shorthand_def split: option.split)

lemma pointers_set_prefs:
  "props (polymer_set settings_pointers ''prefs'' v st) ''prefs'' = v"
  by (simp add: polymer_set_def settings_pointers_decl)

lemma pointers_set_declared:
  "n \<noteq> ''sensitivityValues_'' \<Longrightarrow> props (polymer_set settings_pointers n v st) n = v"
  by (simp add: polymer_set_def settings_pointers_decl prop_shorthand_def split: option.split)

lemma pointers_init_props:
  "props pointers_init ''sensitivityValues_'' = JNumbers [1, 2, 3, 4, 5]"
  "props pointers_init ''prefs'' = Undefined"
  "props pointers_init ''hasMouse'' = Undefined"
  "props pointers_init ''hasTouchpad'' = Undefined"
  by (simp_all add: pointers_init_def polymer_create_def settings_pointers_decl prop_shorthand_def)

lemma pointers_init_lists:
  "fired pointers_init = []" "proxy_calls pointers_init = []"
  by (simp_all add: pointers_init_def)

lemma host_prefs_cong:
  "fired st' = fired st \<Longrightarrow> host_prefs st' = host_prefs st"
  by (simp add: host_prefs_def)

lemma getSubsectionClass_iff:
  "getSubsectionClass hasMouse hasTouchpad =
     (if truthy hasMouse \<and> truthy hasTouchpad then ''subsection'' else '''')"
  by (simp add: getSubsectionClass_def js_and_def)

lemma pointers_run_Cons:
  "pointers_run (op # ops) st = pointers_run ops (pointers_step op st)"
  by (simp add: pointers_run_def)

lemma pointers_run_append:
  "pointers_run (ops @ ops') st = pointers_run ops' (pointers_run ops st)"
  by (simp add: pointers_run_def)

lemma pointers_run_proxy_update:
  "pointers_run ops (st\<lparr>proxy_calls := xs\<rparr>) =
     (pointers_run ops st)\<lparr>proxy_calls := xs @ link_events ops\<rparr>"
proof (induction ops arbitrary: st xs)
  case Nil
  then show ?case by (simp add: pointers_run_def)
next
  case (Cons op ops)
  then show ?case
  proof (cases op)
    case (HostSet n v)
    then show ?thesis
      using Cons.IH[where st = "polymer_set settings_pointers n v st" and xs = xs]
      by (simp add: pointers_run_Cons polymer_set_proxy_update)
  next
    case (LearnMoreLink e)
    then show ?thesis
      using Cons.IH[where st = st and xs = "xs @ [e]"] Cons.IH[where st = st and xs = "proxy_calls st @ [e]"]
      by (simp add: pointers_run_Cons onLearnMoreLinkActivated_def)
  qed
qed

lemma pointers_run_proxy_calls:
  "proxy_calls (pointers_run ops st) = proxy_calls st @ link_events ops"
proof -
  have "proxy_calls (pointers_run ops (st\<lparr>proxy_calls := proxy_calls st\<rparr>)) =
          proxy_calls st @ link_events ops"
    unfolding pointers_run_proxy_update by simp
  then show ?thesis by simp
qed

lemma pointers_run_host_writes:
  "props (pointers_run ops st) = props (pointers_run (host_writes ops) st) \<and>
   fired (pointers_run ops st) = fired (pointers_run (host_writes ops) st)"
proof (induction ops arbitrary: st rule: host_writes.induct)
  case 1
  show ?case by simp
next
  case (2 n v ops)
  show ?case
    unfolding pointers_run_Cons host_writes.simps pointers_step.simps by (rule "2.IH")
next
  case (3 e ops)
  have "pointers_run (LearnMoreLink e # ops) st =
          (pointers_run ops st)\<lparr>proxy_calls := proxy_calls st @ [e] @ link_events ops\<rparr>"
    unfolding pointers_run_Cons pointers_step.simps onLearnMoreLinkActivated_def
      pointers_run_proxy_update by simp
  then show ?case using "3.IH"[of st] by simp
qed

lemma pointers_reachable_run:
  "pointers_reachable st \<Longrightarrow> pointers_reachable (pointers_run ops st)"
proof (induction ops arbitrary: st)
  case Nil
  then show ?case by (simp add: pointers_run_def)
next
  case (Cons op ops)
  then show ?case by (simp add: pointers_run_Cons pointers_reachable.step)
qed

lemma pointers_reachable_iff:
  "pointers_reachable st \<longleftrightarrow> (\<exists>ops. st = pointers_run ops pointers_init)"
proof
  assume "pointers_reachable st"
  then show "\<exists>ops. st = pointers_run ops pointers_init"
  proof (induction rule: pointers_reachable.induct)
    case init
    show ?case by (rule exI[of _ "[]"]) (simp add: pointers_run_def)
  next
    case (step st op)
    then obtain ops where "st = pointers_run ops pointers_init" by blast
    then show ?case by (intro exI[of _ "ops @ [op]"]) (simp add: pointers_run_append pointers_run_def)
  qed
next
  assume "\<exists>ops. st = pointers_run ops pointers_init"
  then show "pointers_reachable st"
    using pointers_reachable_run pointers_reachable.init by blast
qed

subsection \<open>Claims\<close>

text \<open>
  C21.  \<open>sensitivityValues_\<close> is declared \<open>readOnly\<close> and no code of the element
  calls its private setter, so in every state reachable from the created element by
  host writes and link activations it holds the array \<open>[1, 2, 3, 4, 5]\<close> it was
  given at creation, even when the host writes to it.
\<close>

theorem sensitivityValues_constant:
  "pointers_reachable st \<Longrightarrow> props st ''sensitivityValues_'' = JNumbers [1, 2, 3, 4, 5]"
proof (induction rule: pointers_reachable.induct)
  case init
  show ?case by (simp add: pointers_init_props)
next
  case (step st op)
  then show ?case
  proof (cases op)
    case (HostSet n v)
    then show ?thesis using step.IH
      by (cases "n = ''sensitivityValues_''") (simp_all add: pointers_set_sensitivity polymer_set_other)
  qed (simp add: onLearnMoreLinkActivated_def step.IH)
qed

theorem sensitivityValues_constant_witness:
  "props (pointers_run [HostSet ''sensitivityValues_'' (JNumbers [9]), LearnMoreLink ()]
            (pointers_init :: (unit, unit) page_state)) ''sensitivityValues_'' = JNumbers [1, 2, 3, 4, 5]"
  by (rule sensitivityValues_constant[OF pointers_reachable_run[OF pointers_reachable.init]])

text \<open>
  C22.  \<open>prefs\<close> is declared with \<open>notify: true\<close>, and it is the only such
  property: in every reachable state the value carried by the last
  \<open>prefs-changed\<close> event (or \<open>undefined\<close> before any) is the element's current
  \<open>prefs\<close>, so a host listening to the event holds the element's value.
\<close>

theorem host_prefs_in_sync:
  "pointers_reachable st \<Longrightarrow> host_prefs st = props st ''prefs''"
proof (induction rule: pointers_reachable.induct)
  case init
  show ?case by (simp add: host_prefs_def Let_def pointers_init_props pointers_init_lists)
next
  case (step st op)
  show ?case
  proof (cases op)
    case (HostSet n v)
    show ?thesis
    proof (cases "n = ''prefs'' \<and> props st n \<noteq> v")
      case True
      then have "n = ''prefs''" "props st ''prefs'' \<noteq> v" by auto
      then show ?thesis using HostSet
        by (simp add: host_prefs_def Let_def pointers_set_fired pointers_set_prefs)
    next
      case False
      then have "props (polymer_set settings_pointers n v st) ''prefs'' = props st ''prefs''"
        by (cases "n = ''prefs''") (auto simp: pointers_set_prefs polymer_set_other)
      moreover have "host_prefs (polymer_set settings_pointers n v st) = host_prefs st"
        using False by (intro host_prefs_cong) (simp add: pointers_set_fired)
      ultimately show ?thesis using HostSet step.IH by simp
    qed
  next
    case (LearnMoreLink e)
    then show ?thesis using step.IH host_prefs_cong[of "onLearnMoreLinkActivated e st" st]
      by (simp add: onLearnMoreLinkActivated_def)
  qed
qed

theorem host_prefs_in_sync_witness:
  "host_prefs (pointers_run [HostSet ''prefs'' (JObject (1::nat)), HostSet ''hasMouse'' (JBool True),
                 HostSet ''prefs'' (JObject 2)] (pointers_init :: (nat, unit) page_state)) =
     props (pointers_run [HostSet ''prefs'' (JObject (1::nat)), HostSet ''hasMouse'' (JBool True),
                 HostSet ''prefs'' (JObject 2)] (pointers_init :: (nat, unit) page_state)) ''prefs''"
  by (rule host_prefs_in_sync[OF pointers_reachable_run[OF pointers_reachable.init]])

text \<open>
  C23.  Every activation of the learn-more link hands its event to the browser proxy's
  \<open>handleLinkEvent\<close> exactly once, in the order of activation, and link
  activations interleaved with host writes change neither the element's properties nor
  the events it dispatches.
\<close>

theorem pointers_link_events_ordered:
  "proxy_calls (pointers_run ops pointers_init) = link_events ops \<and>
   props (pointers_run ops pointers_init) = props (pointers_run (host_writes ops) pointers_init) \<and>
   fired (pointers_run ops pointers_init) = fired (pointers_run (host_writes ops) pointers_init)"
  using pointers_run_host_writes[where ops = ops and st = pointers_init]
  by (simp add: pointers_run_proxy_calls pointers_init_lists)

text \<open>
  C24.  Mouse and touchpad sections are subsections only if both are present (the
  comment on \<open>getSubsectionClass_\<close>): in a freshly created element both flags are
  \<open>undefined\<close> and the class is empty; once the host has set both flags to booleans,
  the class is \<open>subsection\<close> iff both are true, whatever the state before.
\<close>

theorem subsection_class_flags:
  "subsection_class (pointers_init :: ('p, 'e) page_state) = '''' \<and>
   subsection_class (pointers_run [HostSet ''hasMouse'' (JBool m), HostSet ''hasTouchpad'' (JBool t)] st) =
     (if m \<and> t then ''subsection'' else '''')"
  by (simp add: subsection_class_def getSubsectionClass_iff pointers_init_props pointers_run_def
      pointers_set_declared polymer_set_other)

lemma pointers_step_refines:
  "pointers_abs_of (pointers_step op st) = pointers_abs_step op (pointers_abs_of st)"
proof (cases op)
  case (HostSet n v)
  have keep: "props (polymer_set settings_pointers n v st) m = props st m" if "m \<noteq> n" for m
    using that by (rule polymer_set_other)
  show ?thesis
    using HostSet keep pointers_set_declared[of n v st]
    by (auto simp: pointers_abs_of_def polymer_set_proxy_calls)
next
  case (LearnMoreLink e)
  then show ?thesis by (simp add: pointers_abs_of_def onLearnMoreLinkActivated_def)
qed

lemma pointers_run_abs:
  "pointers_abs_of (pointers_run ops st) =
     foldl (\<lambda>a op. pointers_abs_step op a) (pointers_abs_of st) ops"
  by (induction ops arbitrary: st) (simp_all add: pointers_run_Cons pointers_step_refines pointers_run_def[of "[]"])

text \<open>
  C26.  The element refines its contract: every run of host writes and link
  activations, seen through \<open>pointers_abs_of\<close>, is the run of the abstract steps from
  the abstract initial page, whose three properties are \<open>undefined\<close> and whose proxy
  has received nothing.  Polymer's dirty check, its notifications and the read-only
  sensitivity values change nothing a user of the element observes beyond this.
\<close>

theorem pointers_run_refines:
  "pointers_abs_of (pointers_run ops pointers_init) =
     foldl (\<lambda>a op. pointers_abs_step op a)
       \<lparr>abs_prefs = Undefined, abs_hasMouse = Undefined, abs_hasTouchpad = Undefined,
        abs_proxy_calls = []\<rparr> ops"
  unfolding pointers_run_abs by (simp add: pointers_abs_of_def pointers_init_props pointers_init_lists)

end
