(* ===== verification/Spec2Isabelle.thy ===== *)
theory Spec2Isabelle
  imports Comparator_Scenarios Pipeline Pointers
begin

text \<open>
  A verification library for the two JavaScript sources of this fragment of the
  Chromium repository.

  \<^bold>\<open>The oscillator test harness\<close>
  (\<open>src/third_party/WebKit/LayoutTests/webaudio/resources/oscillator-testing.js\<close>).
  The closure \<open>OscillatorTestingUtils\<close> builds an exponential frequency sweep as a Web
  Audio graph, renders it offline, compares the rendered channel with a 16-bit reference
  recording sample by sample (signal-to-noise ratio, maximum absolute difference and
  its position, count of positive differences), asserts the three metrics against
  configurable thresholds, and offers the rendered buffer for download as the next
  reference.  Its parts and their theories:
  \<^item> \<open>Prelude\<close>: the rule collections \<open>js_num_simps\<close> and \<open>loop_simps\<close> and
    lemmas on index loops, which are modelled as \<open>foldl\<close> over \<open>[0..<n]\<close>.
  \<^item> \<open>JsNum\<close>: JavaScript numbers as the datatype \<open>jsnum\<close> (exact reals, \<open>NaN\<close>,
    \<open>\<plusminus>\<infinity>\<close>) with ECMAScript's case rules for arithmetic, \<open>Math.abs\<close>,
    \<open>Math.log10\<close> and the comparisons; \<open>js_get\<close> reads a typed array, giving
    \<open>NaN\<close> (\<open>undefined\<close>) past its end.
  \<^item> \<open>OscConfig\<close>: the module constants (\<open>sampleRate\<close>, \<open>nyquist\<close>,
    \<open>lengthInSeconds\<close>, \<open>lowFrequency\<close>, \<open>highFrequency\<close>, \<open>waveScaleFactor\<close>),
    the mutable module variables as the record \<open>osc_module\<close>, \<open>setThresholds\<close>
    with its argument object \<open>thresholds_of_object\<close> (absent properties read as
    \<open>undefined\<close>), and the exported object \<open>osc_api_export\<close>.
  \<^item> \<open>Sweep\<close>: \<open>generateExponentialOscillatorSweep\<close> as the record of the graph it
    builds; the evaluation of \<open>AudioParam\<close> automation events
    (\<open>param_value_from\<close>, from the Web Audio specification: the automation's own
    value, not clamped to the parameter's nominal range) gives the oscillator's
    frequency over time.  C14--C17: the sweep is linear in log-frequency, strictly
    increasing, has the stated endpoints and crosses the Nyquist frequency.
  \<^item> \<open>Comparator\<close>: \<open>calculateSNR\<close> and \<open>checkResult\<close>; the loop body
    \<open>checkResult_body\<close> acts on \<open>check_state\<close>, the module state extended with the
    loop's locals.  An abstract specification (\<open>spec_noisePower\<close>,
    \<open>spec_maxError\<close>, \<open>spec_errorPosition\<close>, \<open>spec_diffCount\<close>, over the real
    differences \<open>sample_diffs\<close>) and the refinement theorem C1.
    \<open>Comparator_Scenarios\<close> holds the specification's scenarios and the behaviours it
    does not cover (C2--C13, C25): NaN poisoning of the shared accumulators,
    accumulation across tests, short and long references, inclusive thresholds, NaN
    samples, empty buffers, and the well-formedness of the loop state on every input.
  \<^item> \<open>Pipeline\<close>: the promise chain \<open>loadReferenceAndRunTest\<close>/\<open>runTest\<close> over
    the record \<open>audio_env\<close> of external capabilities (file loader, decoder, offline
    renderer, download), each answering with a value or a rejection (\<open>js_error\<close>);
    \<open>run_tests\<close> runs several tests of one page on the shared module state.  C18--C20:
    the unhandled rejections (no \<open>task.done()\<close>, the new reference kept after a
    failed render), thresholds never written by runs, and NaN poisoning across a page.
  This theory adds C27: a threshold property missing from the object given to
  \<open>setThresholds\<close> makes its assertion fail on every buffer.

  \<^bold>\<open>The settings pointers page\<close>
  (\<open>src/chrome/browser/resources/settings/device_page/pointers.js\<close>), theory
  \<open>Pointers\<close>: the Polymer registration as data, Polymer's creation and property-setter
  semantics (\<open>polymer_create\<close>, \<open>polymer_set\<close>), the methods
  \<open>getSubsectionClass\<close> and \<open>onLearnMoreLinkActivated\<close>, and the page as the step
  function \<open>pointers_step\<close> over host writes and link activations with the inductive
  \<open>pointers_reachable\<close>.  C21--C24: the read-only sensitivity values never change,
  the host's copy of \<open>prefs\<close> follows the element through \<open>prefs-changed\<close>, link
  events reach the browser proxy once each and in order, and the subsection class;
  C26: the element refines its contract \<open>pointers_abs_step\<close> (three writable
  properties and the proxy's call log) through \<open>pointers_abs_of\<close>.

  No loop of the sources can run forever (each iterates over a finite array), so no
  fuel is needed: every operation is a total, executable HOL function.

  Not modelled: the Web Audio rendering engine (oscillator synthesis, gain, sample
  rate conversion), the Audit assertion framework beyond the outcome of its two
  comparisons and the records it logs (not the messages it prints), the file loader and
  the audio decoder, and the HTML templates of the settings page, which the sources only
  call or bind to and which are not under \<open>src/\<close>.  The artifact writer behind
  \<open>downloadAudioBuffer(renderedBuffer, filename, true)\<close> is not modelled either: it
  is not under \<open>src/\<close>, the sources pass it only a buffer, a name and a flag, and
  \<open>waveScaleFactor\<close> is exported but never used by the code, so nothing of the
  repository fixes how samples are written; \<open>checkResult\<close> models the download as a
  capability that reports whether it succeeded.  Floating-point rounding is not
  modelled: sample arithmetic is exact, so the claims concern the algorithm and not the
  last bit of a double.  The licence comment and the closing \<open>});\<close> of pointers.js
  are the only implementation lines no definition translates.
\<close>

subsection \<open>Threshold objects with missing properties\<close>

lemma checkResult_maxDiff_report:
  "snd (checkResult dl b ty st) ! 1 =
      Assertion MaxDiffLabel (maxError (checkResult_loop (channel0 b) st))
        LessThanOrEqualTo (thresholdDiff st)
        (maxError (checkResult_loop (channel0 b) st) \<le> thresholdDiff st)"
  unfolding checkResult_snd by simp

lemma checkResult_reports_nth:
  "snd (checkResult dl b ty st) ! 0 =
      Assertion SNRLabel (calculateSNR (signalPower (checkResult_loop (channel0 b) st))
                                       (noisePower (checkResult_loop (channel0 b) st)))
        GreaterThanOrEqualTo (thresholdSNR st)
        (thresholdSNR st \<le> calculateSNR (signalPower (checkResult_loop (channel0 b) st))
                                        (noisePower (checkResult_loop (channel0 b) st)))"
  "snd (checkResult dl b ty st) ! 2 =
      Assertion (DiffCountLabel (length (channel0 b)))
        (Num (real (diffCount (checkResult_loop (channel0 b) st)))) LessThanOrEqualTo
        (thresholdDiffCount st)
        (Num (real (diffCount (checkResult_loop (channel0 b) st))) \<le> thresholdDiffCount st)"
  unfolding checkResult_snd by simp_all

text \<open>
  C27.  \<open>setThresholds\<close> reads the properties \<open>snr\<close>, \<open>maxDiff\<close> and
  \<open>diffCount\<close> of its argument.  Each of them that the object lacks becomes
  \<open>undefined\<close>, and the assertion comparing against it fails in every later
  \<open>checkResult\<close>, whatever the buffers: the SNR assertion when \<open>snr\<close> is missing, the
  maximum-difference assertion when \<open>maxDiff\<close> is missing, the count assertion when
  \<open>diffCount\<close> is missing.
\<close>

theorem setThresholds_missing_property_fails:
  "(obj ''snr'' = None \<longrightarrow>
      \<not> report_passed (snd (checkResult dl b ty (setThresholds (thresholds_of_object obj) st)) ! 0)) \<and>
   (obj ''maxDiff'' = None \<longrightarrow>
      \<not> report_passed (snd (checkResult dl b ty (setThresholds (thresholds_of_object obj) st)) ! 1)) \<and>
   (obj ''diffCount'' = None \<longrightarrow>
      \<not> report_passed (snd (checkResult dl b ty (setThresholds (thresholds_of_object obj) st)) ! 2))"
  unfolding checkResult_reports_nth checkResult_maxDiff_report
  by (simp add: setThresholds_def thresholds_of_object_def js_prop_def js_NaN_le)

theorem setThresholds_missing_property_fails_witness:
  "\<not> report_passed (snd (checkResult (\<lambda>_ _. False)
        \<lparr>channel0 = [Num 1], other_channels = [], buffer_sampleRate = 44100\<rparr> ''sine''
        (setThresholds (thresholds_of_object
           [''minSNR'' \<mapsto> Num 50, ''maxAbsoluteDiff'' \<mapsto> Num 1, ''maxDiffCount'' \<mapsto> Num 10])
           (osc_module_init\<lparr>reference := [Num 1]\<rparr>))) ! 0) \<and>
   \<not> report_passed (snd (checkResult (\<lambda>_ _. False)
        \<lparr>channel0 = [Num 1], other_channels = [], buffer_sampleRate = 44100\<rparr> ''sine''
        (setThresholds (thresholds_of_object
           [''minSNR'' \<mapsto> Num 50, ''maxAbsoluteDiff'' \<mapsto> Num 1, ''maxDiffCount'' \<mapsto> Num 10])
           (osc_module_init\<lparr>reference := [Num 1]\<rparr>))) ! 1) \<and>
   \<not> report_passed (snd (checkResult (\<lambda>_ _. False)
        \<lparr>channel0 = [Num 1], other_channels = [], buffer_sampleRate = 44100\<rparr> ''sine''
        (setThresholds (thresholds_of_object
           [''minSNR'' \<mapsto> Num 50, ''maxAbsoluteDiff'' \<mapsto> Num 1, ''maxDiffCount'' \<mapsto> Num 10])
           (osc_module_init\<lparr>reference := [Num 1]\<rparr>))) ! 2)"
  using setThresholds_missing_property_fails[where
      obj = "[''minSNR'' \<mapsto> Num 50, ''maxAbsoluteDiff'' \<mapsto> Num 1, ''maxDiffCount'' \<mapsto> Num 10]"
      and dl = "\<lambda>_ _. False" and b = "\<lparr>channel0 = [Num 1], other_channels = [], buffer_sampleRate = 44100\<rparr>"
      and ty = "''sine''" and st = "osc_module_init\<lparr>reference := [Num 1]\<rparr>"]
  by simp

end
